theory Spec2Isabelle
  imports Main "HOL-Library.Char_ord" "HOL-Library.List_Lexorder"
begin

section \<open>Numbers of the ledger\<close>

subsection \<open>Decimal values\<close>

text \<open>
  The wallet keeps \<open>balance\<close> and \<open>budget\<close> as Python \<open>Decimal\<close> objects. A finite
  \<open>Decimal\<close> is a signed coefficient and a power of ten: \<open>Decimal("0.00")\<close> is
  coefficient \<open>0\<close>, exponent \<open>-2\<close>. Comparison is by numeric value; addition keeps the
  smaller exponent of its operands and rounds the result to the 28 significant digits
  of the default context (half to even). The special values (NaN, Infinity, signed
  zero) and the exponent limits of the context are not represented.
\<close>

record decimal =
  coeff :: int
  expo :: int

definition Decimal :: "int \<Rightarrow> int \<Rightarrow> decimal" where
  "Decimal c e = \<lparr>coeff = c, expo = e\<rparr>"

definition align :: "decimal \<Rightarrow> int \<Rightarrow> int" where
  "align d e = coeff d * 10 ^ nat (expo d - e)"

definition dec_less :: "decimal \<Rightarrow> decimal \<Rightarrow> bool" where
  "dec_less a b = (let e = min (expo a) (expo b) in align a e < align b e)"

definition dec_le :: "decimal \<Rightarrow> decimal \<Rightarrow> bool" where
  "dec_le a b = (let e = min (expo a) (expo b) in align a e \<le> align b e)"

definition dec_eq :: "decimal \<Rightarrow> decimal \<Rightarrow> bool" where
  "dec_eq a b = (let e = min (expo a) (expo b) in align a e = align b e)"

definition dec_zero :: decimal where
  "dec_zero = Decimal 0 0"

text \<open>Rounding the quotient \<open>p / q\<close> (\<open>q > 0\<close>) to the nearest integer, ties to even.\<close>

definition round_half_even :: "int \<Rightarrow> int \<Rightarrow> int" where
  "round_half_even p q =
     (let f = p div q; r = p mod q
      in if 2 * r < q then f
         else if q < 2 * r then f + 1
         else if even f then f else f + 1)"

function ndigits :: "int \<Rightarrow> nat" where
  "ndigits n = (if n < 10 then 1 else Suc (ndigits (n div 10)))"
  by pat_completeness auto
termination
  by (relation "measure nat") auto

declare ndigits.simps [simp del]

definition prec :: nat where
  "prec = 28"

text \<open>\<open>Decimal._fix\<close>: a coefficient of more than \<open>prec\<close> digits is rounded to \<open>prec\<close>.\<close>

definition dec_fix :: "decimal \<Rightarrow> decimal" where
  "dec_fix d =
     (let n = ndigits \<bar>coeff d\<bar>
      in if n \<le> prec then d
         else
           (let k = n - prec;
                m = round_half_even \<bar>coeff d\<bar> (10 ^ k)
            in if m = 10 ^ prec
               then Decimal (sgn (coeff d) * 10 ^ (prec - 1)) (expo d + int k + 1)
               else Decimal (sgn (coeff d) * m) (expo d + int k)))"

definition dec_add :: "decimal \<Rightarrow> decimal \<Rightarrow> decimal" where
  "dec_add a b =
     (let e = min (expo a) (expo b) in dec_fix (Decimal (align a e + align b e) e))"

definition dec_neg :: "decimal \<Rightarrow> decimal" where
  "dec_neg a = Decimal (- coeff a) (expo a)"

definition dec_sub :: "decimal \<Rightarrow> decimal \<Rightarrow> decimal" where
  "dec_sub a b = dec_add a (dec_neg b)"


text \<open>
  Division follows \<open>Decimal.__truediv__\<close>: the quotient of the coefficients is taken with
  \<open>prec + 1\<close> digits more than the operands differ in length; an inexact quotient ending
  in 0 or 5 is bumped so that the final rounding sees it as inexact; an exact one sheds
  trailing zeros down to the ideal exponent. The divisor is not zero at either call
  site of the wallet.
\<close>

function strip_zeros :: "int \<Rightarrow> int \<Rightarrow> int \<Rightarrow> int \<times> int" where
  "strip_zeros ideal c e =
     (if e < ideal \<and> c mod 10 = 0 then strip_zeros ideal (c div 10) (e + 1) else (c, e))"
  by pat_completeness auto
termination
  by (relation "measure (\<lambda>(ideal, c, e). nat (ideal - e))") auto

declare strip_zeros.simps [simp del]

definition dec_div :: "decimal \<Rightarrow> decimal \<Rightarrow> decimal" where
  "dec_div a b =
     (if coeff a = 0 then Decimal 0 (expo a - expo b)
      else
        (let shift = int (ndigits \<bar>coeff b\<bar>) - int (ndigits \<bar>coeff a\<bar>) + int prec + 1;
             e = expo a - expo b - shift;
             num = (if 0 \<le> shift then \<bar>coeff a\<bar> * 10 ^ nat shift else \<bar>coeff a\<bar>);
             den = (if 0 \<le> shift then \<bar>coeff b\<bar> else \<bar>coeff b\<bar> * 10 ^ nat (- shift));
             q = num div den;
             r = num mod den;
             s = sgn (coeff a) * sgn (coeff b)
         in if r \<noteq> 0
            then dec_fix (Decimal (s * (if q mod 5 = 0 then q + 1 else q)) e)
            else (case strip_zeros (expo a - expo b) q e of
                    (q', e') \<Rightarrow> dec_fix (Decimal (s * q') e'))))"

subsection \<open>Decimal text\<close>

definition digit_char :: "int \<Rightarrow> char" where
  "digit_char n = ''0123456789'' ! nat n"

function digits_of :: "int \<Rightarrow> string" where
  "digits_of n =
     (if n < 10 then [digit_char n] else digits_of (n div 10) @ [digit_char (n mod 10)])"
  by pat_completeness auto
termination
  by (relation "measure nat") auto

declare digits_of.simps [simp del]

text \<open>
  \<open>f"{amount:.2f}"\<close>: the value rounded to two places (half to even, the context's
  rounding), written with at least one digit before the point and two after it, with
  a leading \<open>-\<close> for a negative value.
\<close>

definition cents_of :: "decimal \<Rightarrow> int" where
  "cents_of d =
     (if 0 \<le> expo d + 2 then \<bar>coeff d\<bar> * 10 ^ nat (expo d + 2)
      else round_half_even \<bar>coeff d\<bar> (10 ^ nat (- (expo d + 2))))"

definition format_2f :: "decimal \<Rightarrow> string" where
  "format_2f d =
     (let c = cents_of d
      in (if coeff d < 0 then ''-'' else '''') @ digits_of (c div 100) @ ''.'' @
         [digit_char (c mod 100 div 10), digit_char (c mod 10)])"

definition digit_val :: "char \<Rightarrow> int option" where
  "digit_val c = (if c \<in> set ''0123456789'' then Some (of_char c - 48) else None)"

fun parse_digits :: "int \<Rightarrow> string \<Rightarrow> int option" where
  "parse_digits acc [] = Some acc"
| "parse_digits acc (c # cs) =
     (case digit_val c of None \<Rightarrow> None | Some v \<Rightarrow> parse_digits (10 * acc + v) cs)"

text \<open>\<open>str.replace(c, '')\<close> for a one-character pattern: every occurrence is removed.\<close>

definition remove_char :: "char \<Rightarrow> string \<Rightarrow> string" where
  "remove_char c s = filter (\<lambda>x. x \<noteq> c) s"

text \<open>\<open>str.strip()\<close>, for the white space of ASCII.\<close>

definition is_space :: "char \<Rightarrow> bool" where
  "is_space c = ((of_char c :: nat) \<in> {9, 10, 11, 12, 13, 28, 29, 30, 31, 32})"

definition strip :: "string \<Rightarrow> string" where
  "strip s = rev (dropWhile is_space (rev (dropWhile is_space s)))"

text \<open>
  The \<open>Decimal\<close> constructor on a string. The string is stripped and its underscores
  are removed; what is left must be an optional sign, then digits with an optional
  point (at least one digit in all), then an optional exponent: \<open>E\<close> or \<open>e\<close>, an
  optional sign and at least one digit. The coefficient is the number that the
  digits write and the exponent is the written exponent less the number of digits
  after the point. The constructor raises \<open>InvalidOperation\<close> on any other string,
  which is \<open>None\<close> here. Not represented, and unreadable in the model: the special
  values (\<open>Infinity\<close>, \<open>NaN\<close>), the sign of a negative zero, and digits and blanks
  outside ASCII.
\<close>

definition parse_unsigned :: "string \<Rightarrow> decimal option" where
  "parse_unsigned s =
     (let ip = takeWhile (\<lambda>c. c \<noteq> CHR ''.'') s;
          rest = dropWhile (\<lambda>c. c \<noteq> CHR ''.'') s;
          fp = (if rest = [] then [] else tl rest)
      in if ip @ fp = [] then None
         else (case parse_digits 0 (ip @ fp) of
                 None \<Rightarrow> None
               | Some n \<Rightarrow> Some (Decimal n (- int (length fp)))))"

definition parse_nonempty_digits :: "string \<Rightarrow> int option" where
  "parse_nonempty_digits s = (if s = [] then None else parse_digits 0 s)"

definition parse_exponent :: "string \<Rightarrow> int option" where
  "parse_exponent s =
     (case s of
        [] \<Rightarrow> None
      | c # cs \<Rightarrow>
          if c = CHR ''-'' then map_option uminus (parse_nonempty_digits cs)
          else if c = CHR ''+'' then parse_nonempty_digits cs
          else parse_nonempty_digits s)"

definition exponent_mark :: "char \<Rightarrow> bool" where
  "exponent_mark c = (c = CHR ''E'' \<or> c = CHR ''e'')"

definition parse_number :: "string \<Rightarrow> decimal option" where
  "parse_number s =
     (let m = takeWhile (\<lambda>c. \<not> exponent_mark c) s;
          rest = dropWhile (\<lambda>c. \<not> exponent_mark c) s
      in case parse_unsigned m of
           None \<Rightarrow> None
         | Some d \<Rightarrow>
             if rest = [] then Some d
             else (case parse_exponent (tl rest) of
                     None \<Rightarrow> None
                   | Some x \<Rightarrow> Some (Decimal (coeff d) (expo d + x))))"

definition Decimal_of_string :: "string \<Rightarrow> decimal option" where
  "Decimal_of_string s =
     (case remove_char CHR ''_'' (strip s) of
        [] \<Rightarrow> None
      | c # cs \<Rightarrow>
          if c = CHR ''-'' then map_option dec_neg (parse_number cs)
          else if c = CHR ''+'' then parse_number cs
          else parse_number (c # cs))"

text \<open>
  \<open>str(d)\<close> for a \<open>Decimal\<close> (\<open>Decimal.__str__\<close>): plain notation when the exponent is
  not positive and the number has more than \<open>-6\<close> digits left of the point, scientific
  notation with one digit before the point otherwise.
\<close>

definition str_of_decimal :: "decimal \<Rightarrow> string" where
  "str_of_decimal d =
     (let ds = digits_of \<bar>coeff d\<bar>;
          n = int (length ds);
          leftdigits = expo d + n;
          dotplace = (if expo d \<le> 0 \<and> - 6 < leftdigits then leftdigits else 1);
          intpart =
            (if dotplace \<le> 0 then ''0''
             else if n \<le> dotplace then ds @ replicate (nat (dotplace - n)) CHR ''0''
             else take (nat dotplace) ds);
          fracpart =
            (if dotplace \<le> 0 then ''.'' @ replicate (nat (- dotplace)) CHR ''0'' @ ds
             else if n \<le> dotplace then ''''
             else ''.'' @ drop (nat dotplace) ds);
          exp =
            (if leftdigits = dotplace then ''''
             else ''E'' @ (if 0 \<le> leftdigits - dotplace then ''+'' else ''-'') @
                  digits_of \<bar>leftdigits - dotplace\<bar>)
      in (if coeff d < 0 then ''-'' else '''') @ intpart @ fracpart @ exp)"

text \<open>The characters that \<open>digits_of\<close> writes.\<close>

definition digit_chars :: "char set" where
  "digit_chars = set ''0123456789''"

subsection \<open>Binary floating point\<close>

text \<open>
  A Python \<open>float\<close> is an IEEE binary64 number. A finite one is a pair \<open>(m, e)\<close> denoting
  \<open>m * 2 ^ e\<close>, kept in the form the format gives it: \<open>2 ^ 52 \<le> \<bar>m\<bar> < 2 ^ 53\<close> for a normal
  number, \<open>e = -1074\<close> for a subnormal one, and \<open>(0, 0)\<close> for zero, so that two floats are
  the same number exactly when the pairs are equal. Every conversion and every
  addition rounds the exact result to the nearest such number, ties to even.
  Overflow to infinity and the sign of zero are not represented.
\<close>

type_synonym float = "int \<times> int"

function bitlen :: "int \<Rightarrow> nat" where
  "bitlen n = (if n \<le> 0 then 0 else Suc (bitlen (n div 2)))"
  by pat_completeness auto
termination
  by (relation "measure nat") auto

declare bitlen.simps [simp del]

definition pow2_le_frac :: "int \<Rightarrow> int \<Rightarrow> int \<Rightarrow> bool" where
  "pow2_le_frac d a q = (if 0 \<le> d then q * 2 ^ nat d \<le> a else q \<le> a * 2 ^ nat (- d))"

text \<open>The float nearest to the fraction \<open>p / q\<close>, for \<open>q > 0\<close>.\<close>

definition float_of_frac :: "int \<Rightarrow> int \<Rightarrow> float" where
  "float_of_frac p q =
     (if p = 0 then (0, 0)
      else
        (let a = \<bar>p\<bar>;
             d = int (bitlen a) - int (bitlen q);
             e = (if pow2_le_frac d a q then d else d - 1);
             k = min (52 - e) 1074;
             m = (if 0 \<le> k then round_half_even (a * 2 ^ nat k) q
                  else round_half_even a (q * 2 ^ nat (- k)))
         in if m = 0 then (0, 0)
            else if m = 2 ^ 53 then (sgn p * 2 ^ 52, 1 - k)
            else (sgn p * m, - k)))"

definition float_add :: "float \<Rightarrow> float \<Rightarrow> float" where
  "float_add x y =
     (case (x, y) of
        ((m1, e1), (m2, e2)) \<Rightarrow>
          (let e = min e1 e2;
               n = m1 * 2 ^ nat (e1 - e) + m2 * 2 ^ nat (e2 - e)
           in if 0 \<le> e then float_of_frac (n * 2 ^ nat e) 1
              else float_of_frac n (2 ^ nat (- e))))"

definition float_abs :: "float \<Rightarrow> float" where
  "float_abs x = (\<bar>fst x\<bar>, snd x)"

definition float_of_decimal :: "decimal \<Rightarrow> float" where
  "float_of_decimal d =
     (if 0 \<le> expo d then float_of_frac (coeff d * 10 ^ nat (expo d)) 1
      else float_of_frac (coeff d) (10 ^ nat (- expo d)))"

text \<open>
  \<open>float(s)\<close> on a string: the number is read as \<open>Decimal_of_string\<close> reads it and
  rounded to the nearest float; \<open>None\<close> is the \<open>ValueError\<close> of \<open>float\<close>. (\<open>float\<close>
  accepts an underscore between two digits only; the amounts read here have none.)
\<close>

definition float_of_string :: "string \<Rightarrow> float option" where
  "float_of_string s = map_option float_of_decimal (Decimal_of_string s)"

section \<open>The wallet (\<open>Wallet/wallet-2.py\<close>, class \<open>PersonalWallet\<close>)\<close>

subsection \<open>Data\<close>

text \<open>
  A transaction is the dictionary that \<open>add_transaction\<close> builds; the key \<open>'id'\<close> is the
  field \<open>ident\<close> and the key \<open>'type'\<close> the field \<open>ttype\<close>. The amount is kept as the
  display string (\<open>"+$12.50"\<close>, \<open>"-$3.00"\<close>), as in the source.
\<close>

record transaction =
  ident :: int
  amount :: string
  raw_amount :: float
  ttype :: string
  category :: string
  description :: string
  date :: string

record wallet =
  transactions :: "transaction list"
  balance :: decimal
  budget :: decimal

text \<open>The object after \<open>__init__\<close> when no data file exists.\<close>

definition empty_wallet :: wallet where
  "empty_wallet = \<lparr>transactions = [], balance = Decimal 0 (- 2), budget = Decimal 0 (- 2)\<rparr>"

text \<open>
  Both methods return a pair of a flag and a message. The reply of the model is \<open>None\<close>
  for \<open>(True, ...)\<close> and the failure for \<open>(False, message)\<close>:
  \<open>InvalidAmount\<close> is "Amount must be greater than 0", \<open>InsufficientBalance\<close> is
  "Insufficient balance for this expense", \<open>InvalidType\<close> is "Invalid transaction type",
  \<open>NotFound\<close> is "Transaction not found", and \<open>Raised\<close> is any other exception that the
  method catches (an amount that \<open>Decimal\<close> cannot read).
\<close>

datatype failure = InvalidAmount | InsufficientBalance | InvalidType | NotFound | Raised

subsection \<open>Strings\<close>

definition upper_char :: "char \<Rightarrow> char" where
  "upper_char c =
     (let n = (of_char c :: nat) in if 97 \<le> n \<and> n \<le> 122 then char_of (n - 32) else c)"

definition lower_char :: "char \<Rightarrow> char" where
  "lower_char c =
     (let n = (of_char c :: nat) in if 65 \<le> n \<and> n \<le> 90 then char_of (n + 32) else c)"

text \<open>\<open>str.capitalize\<close> on ASCII text.\<close>

definition capitalize :: "string \<Rightarrow> string" where
  "capitalize s = (case s of [] \<Rightarrow> [] | c # cs \<Rightarrow> upper_char c # map lower_char cs)"

subsection \<open>Adding and deleting\<close>

text \<open>
  \<open>add_transaction(amount, trans_type, category, description)\<close>. The amount is the
  text of the entry field, as the interface passes it. \<open>now\<close> is \<open>datetime.now().strftime("%Y-%m-%d %H:%M:%S")\<close>. The result is
  the reply and the object as the call leaves it. The call to \<open>save_data\<close> that ends
  the method writes the file and leaves the object as it is.
\<close>

definition new_transaction ::
  "decimal \<Rightarrow> string \<Rightarrow> string \<Rightarrow> string \<Rightarrow> string \<Rightarrow> wallet \<Rightarrow> transaction" where
  "new_transaction a trans_type cat descr now w =
     \<lparr>ident = int (length (transactions w)) + 1,
      amount = (if trans_type = ''income'' then ''+$'' @ format_2f a else ''-$'' @ format_2f a),
      raw_amount = float_of_decimal a,
      ttype = capitalize trans_type,
      category = cat,
      description = (if descr = [] then ''No description'' else descr),
      date = now\<rparr>"

definition append_transaction :: "transaction \<Rightarrow> wallet \<Rightarrow> wallet" where
  "append_transaction t w = w\<lparr>transactions := transactions w @ [t]\<rparr>"

definition add_transaction ::
  "string \<Rightarrow> string \<Rightarrow> string \<Rightarrow> string \<Rightarrow> string \<Rightarrow> wallet \<Rightarrow> failure option \<times> wallet" where
  "add_transaction amount_text trans_type cat descr now w =
     (case Decimal_of_string amount_text of
        None \<Rightarrow> (Some Raised, w)
      | Some a \<Rightarrow>
          if dec_le a dec_zero then (Some InvalidAmount, w)
          else if trans_type = ''income'' then
            (let w1 = w\<lparr>balance := dec_add (balance w) a\<rparr>
             in (None, append_transaction (new_transaction a trans_type cat descr now w1) w1))
          else if trans_type = ''expense'' then
            (if dec_less (balance w) a then (Some InsufficientBalance, w)
             else
               (let w1 = w\<lparr>balance := dec_sub (balance w) a\<rparr>
                in (None, append_transaction (new_transaction a trans_type cat descr now w1) w1)))
          else (Some InvalidType, w))"

text \<open>\<open>get_balance\<close>: the balance as shown, \<open>f"${self.balance:.2f}"\<close>.\<close>

definition get_balance :: "wallet \<Rightarrow> string" where
  "get_balance w = ''$'' @ format_2f (balance w)"

text \<open>
  \<open>delete_transaction(trans_id)\<close>: the first transaction with the id is looked up, its
  amount is read back from the display string and taken off (or put back on) the
  balance, and every transaction with the id is dropped from the list.
\<close>

definition unsigned_amount :: "transaction \<Rightarrow> decimal option" where
  "unsigned_amount t =
     Decimal_of_string
       (remove_char CHR ''-'' (remove_char CHR ''+'' (remove_char CHR ''$'' (amount t))))"

definition delete_transaction :: "int \<Rightarrow> wallet \<Rightarrow> failure option \<times> wallet" where
  "delete_transaction trans_id w =
     (case find (\<lambda>t. ident t = trans_id) (transactions w) of
        None \<Rightarrow> (Some NotFound, w)
      | Some tr \<Rightarrow>
          (case unsigned_amount tr of
             None \<Rightarrow> (Some Raised, w)
           | Some a \<Rightarrow>
               (let w1 = w\<lparr>balance :=
                             (if ttype tr = ''Income'' then dec_sub (balance w) a
                              else dec_add (balance w) a)\<rparr>
                in (None,
                    w1\<lparr>transactions := filter (\<lambda>t. ident t \<noteq> trans_id) (transactions w1)\<rparr>))))"

subsection \<open>Statistics\<close>

text \<open>
  The amounts are read back with \<open>Decimal\<close>; one that cannot be read raises, which is
  \<open>None\<close>. \<open>sum\<close> adds from the integer 0, left to right; \<open>max\<close> keeps the first of
  equal maxima.
\<close>

fun read_all :: "'a option list \<Rightarrow> 'a list option" where
  "read_all [] = Some []"
| "read_all (None # _) = None"
| "read_all (Some x # xs) = map_option ((#) x) (read_all xs)"

definition sum_decimals :: "decimal list \<Rightarrow> decimal" where
  "sum_decimals ds = foldl dec_add (Decimal 0 0) ds"

fun max_decimals :: "decimal \<Rightarrow> decimal list \<Rightarrow> decimal" where
  "max_decimals m [] = m"
| "max_decimals m (d # ds) = max_decimals (if dec_less m d then d else m) ds"

definition income_amount :: "transaction \<Rightarrow> decimal option" where
  "income_amount t =
     Decimal_of_string (remove_char CHR ''+'' (remove_char CHR ''$'' (amount t)))"

definition expense_amount :: "transaction \<Rightarrow> decimal option" where
  "expense_amount t =
     Decimal_of_string (remove_char CHR ''-'' (remove_char CHR ''$'' (amount t)))"

record statistics =
  total_income :: decimal
  total_expenses :: decimal
  net_savings :: decimal
  transaction_count :: nat
  avg_expense :: decimal
  largest_expense :: decimal

definition get_statistics :: "wallet \<Rightarrow> statistics option" where
  "get_statistics w =
     (let expense_transactions = filter (\<lambda>t. ttype t = ''Expense'') (transactions w)
      in case read_all (map income_amount
                 (filter (\<lambda>t. ttype t = ''Income'') (transactions w))) of
           None \<Rightarrow> None
         | Some incomes \<Rightarrow>
             (case read_all (map expense_amount expense_transactions) of
                None \<Rightarrow> None
              | Some expenses \<Rightarrow>
                  Some \<lparr>total_income = sum_decimals incomes,
                        total_expenses = sum_decimals expenses,
                        net_savings = dec_sub (sum_decimals incomes) (sum_decimals expenses),
                        transaction_count = length (transactions w),
                        avg_expense =
                          (if expense_transactions = [] then Decimal 0 (- 2)
                           else dec_div (sum_decimals expenses)
                                  (Decimal (int (length expense_transactions)) 0)),
                        largest_expense =
                          (case expenses of
                             [] \<Rightarrow> Decimal 0 (- 2)
                           | d # ds \<Rightarrow> max_decimals d ds)\<rparr>))"

subsection \<open>Budget\<close>


text \<open>\<open>str.startswith\<close>.\<close>

fun startswith :: "string \<Rightarrow> string \<Rightarrow> bool" where
  "startswith s [] = True"
| "startswith [] (p # ps) = False"
| "startswith (c # cs) (p # ps) = (c = p \<and> startswith cs ps)"



subsection \<open>Data for the charts\<close>

text \<open>
  A dictionary that keeps the order in which its keys were first inserted, as an
  association list: \<open>bump k f d\<close> is \<open>dict[k] = f(dict[k])\<close> on a \<open>defaultdict\<close> whose
  default value is \<open>d\<close>.
\<close>

fun bump :: "'k \<Rightarrow> ('v \<Rightarrow> 'v) \<Rightarrow> 'v \<Rightarrow> ('k \<times> 'v) list \<Rightarrow> ('k \<times> 'v) list" where
  "bump k f d [] = [(k, f d)]"
| "bump k f d ((k', v) # kvs) =
     (if k' = k then (k', f v) # kvs else (k', v) # bump k f d kvs)"

text \<open>
  \<open>get_expense_by_category()\<close>: the amounts are converted with \<open>float\<close> and added as
  floats, in the order of the list. \<open>None\<close> is the \<open>ValueError\<close> of \<open>float\<close>.
\<close>

definition expense_float :: "transaction \<Rightarrow> float option" where
  "expense_float t =
     float_of_string (remove_char CHR ''-'' (remove_char CHR ''$'' (amount t)))"

fun expense_by_category_loop ::
  "transaction list \<Rightarrow> (string \<times> float) list \<Rightarrow> (string \<times> float) list option" where
  "expense_by_category_loop [] expenses = Some expenses"
| "expense_by_category_loop (t # ts) expenses =
     (if ttype t = ''Expense'' then
        (case expense_float t of
           None \<Rightarrow> None
         | Some a \<Rightarrow>
             expense_by_category_loop ts
               (bump (category t) (\<lambda>v. float_add v a) (0, 0) expenses))
      else expense_by_category_loop ts expenses)"

definition get_expense_by_category :: "wallet \<Rightarrow> (string \<times> float) list option" where
  "get_expense_by_category w = expense_by_category_loop (transactions w) []"

text \<open>
  \<open>get_monthly_data(months)\<close>. The key of a transaction is
  \<open>datetime.strptime(t['date'], "%Y-%m-%d %H:%M:%S").strftime("%Y-%m")\<close>, which is the
  parameter \<open>month_key\<close> of the model (\<open>None\<close> when \<open>strptime\<close> raises): the properties
  below hold whatever it computes. \<open>month_of_timestamp\<close> is this function on the
  timestamps that \<open>add_transaction\<close> writes, four digits of year and two each of month,
  day, hour, minute and second.
\<close>

record month_sums =
  income :: float
  expense :: float

definition unsigned_float :: "transaction \<Rightarrow> float option" where
  "unsigned_float t =
     map_option float_abs
       (float_of_string
          (remove_char CHR ''-'' (remove_char CHR ''+'' (remove_char CHR ''$'' (amount t)))))"

fun monthly_loop ::
  "(string \<Rightarrow> string option) \<Rightarrow> transaction list \<Rightarrow> (string \<times> month_sums) list \<Rightarrow>
     (string \<times> month_sums) list option" where
  "monthly_loop month_key [] monthly_data = Some monthly_data"
| "monthly_loop month_key (t # ts) monthly_data =
     (case month_key (date t) of
        None \<Rightarrow> None
      | Some k \<Rightarrow>
          (case unsigned_float t of
             None \<Rightarrow> None
           | Some a \<Rightarrow>
               monthly_loop month_key ts
                 (bump k
                    (\<lambda>v. if ttype t = ''Income'' then v\<lparr>income := float_add (income v) a\<rparr>
                         else v\<lparr>expense := float_add (expense v) a\<rparr>)
                    \<lparr>income = (0, 0), expense = (0, 0)\<rparr> monthly_data)))"

text \<open>
  The slice \<open>xs[-months:]\<close>: the last \<open>months\<close> items for a positive count, the whole
  list for \<open>0\<close>, and the list without its first \<open>-months\<close> items for a negative one.
\<close>

definition last_items :: "int \<Rightarrow> 'a list \<Rightarrow> 'a list" where
  "last_items months xs =
     (if 0 < months then drop (length xs - nat months) xs
      else if months = 0 then xs
      else drop (nat (- months)) xs)"

definition get_monthly_data ::
  "(string \<Rightarrow> string option) \<Rightarrow> int \<Rightarrow> wallet \<Rightarrow> (string \<times> month_sums) list option" where
  "get_monthly_data month_key months w =
     (case monthly_loop month_key (transactions w) [] of
        None \<Rightarrow> None
      | Some monthly_data \<Rightarrow>
          Some (List.map_filter
                  (\<lambda>month. map_option (Pair month) (map_of monthly_data month))
                  (last_items months (sort (map fst monthly_data)))))"

definition is_digit :: "char \<Rightarrow> bool" where
  "is_digit c = (c \<in> set ''0123456789'')"

definition month_of_timestamp :: "string \<Rightarrow> string option" where
  "month_of_timestamp s =
     (if length s = 19
         \<and> list_all is_digit (take 4 s) \<and> s ! 4 = CHR ''-''
         \<and> list_all is_digit (take 2 (drop 5 s)) \<and> s ! 7 = CHR ''-''
         \<and> list_all is_digit (take 2 (drop 8 s)) \<and> s ! 10 = CHR '' ''
         \<and> list_all is_digit (take 2 (drop 11 s)) \<and> s ! 13 = CHR '':''
         \<and> list_all is_digit (take 2 (drop 14 s)) \<and> s ! 16 = CHR '':''
         \<and> list_all is_digit (take 2 (drop 17 s))
      then Some (take 7 s) else None)"

subsection \<open>The data file\<close>

text \<open>
  What \<open>json.dump\<close> writes and \<open>json.load\<close> reads back, as a value: the text of the file
  is the \<open>json\<close> module's and is not modelled. An object is the list of its members in
  the order of the file; a later member of the same name overrides an earlier one.
\<close>

datatype json =
    JNull
  | JBool bool
  | JInt int
  | JFloat float
  | JString string
  | JArray "json list"
  | JObject "(string \<times> json) list"

definition json_get :: "string \<Rightarrow> (string \<times> json) list \<Rightarrow> json option" where
  "json_get k members = map_of (rev members) k"

definition json_of_transaction :: "transaction \<Rightarrow> json" where
  "json_of_transaction t =
     JObject
       [(''id'', JInt (ident t)),
        (''amount'', JString (amount t)),
        (''raw_amount'', JFloat (raw_amount t)),
        (''type'', JString (ttype t)),
        (''category'', JString (category t)),
        (''description'', JString (description t)),
        (''date'', JString (date t))]"

text \<open>
  \<open>save_data()\<close>: the content of the file after the call; \<open>now\<close> is
  \<open>datetime.now().isoformat()\<close>. A failure of the write is reported by the method and
  is not modelled.
\<close>

definition save_data :: "string \<Rightarrow> wallet \<Rightarrow> json" where
  "save_data now w =
     JObject
       [(''transactions'', JArray (map json_of_transaction (transactions w))),
        (''balance'', JString (str_of_decimal (balance w))),
        (''budget'', JString (str_of_decimal (budget w))),
        (''last_updated'', JString now)]"

text \<open>
  Reading a transaction back. The wallet of the model holds transactions with the
  seven fields that \<open>add_transaction\<close> writes; an object with other members, or with a
  member of another type, is a dictionary that Python loads all the same and that the
  model does not represent (\<open>None\<close>).
\<close>

definition as_int :: "json option \<Rightarrow> int option" where
  "as_int j = (case j of Some (JInt i) \<Rightarrow> Some i | _ \<Rightarrow> None)"

definition as_float :: "json option \<Rightarrow> float option" where
  "as_float j = (case j of Some (JFloat x) \<Rightarrow> Some x | _ \<Rightarrow> None)"

definition as_string :: "json option \<Rightarrow> string option" where
  "as_string j = (case j of Some (JString s) \<Rightarrow> Some s | _ \<Rightarrow> None)"

definition transaction_keys :: "string list" where
  "transaction_keys =
     [''id'', ''amount'', ''raw_amount'', ''type'', ''category'', ''description'', ''date'']"

definition transaction_of_members :: "(string \<times> json) list \<Rightarrow> transaction option" where
  "transaction_of_members ms =
     (case as_int (json_get ''id'' ms) of None \<Rightarrow> None | Some i \<Rightarrow>
      case as_string (json_get ''amount'' ms) of None \<Rightarrow> None | Some a \<Rightarrow>
      case as_float (json_get ''raw_amount'' ms) of None \<Rightarrow> None | Some r \<Rightarrow>
      case as_string (json_get ''type'' ms) of None \<Rightarrow> None | Some ty \<Rightarrow>
      case as_string (json_get ''category'' ms) of None \<Rightarrow> None | Some c \<Rightarrow>
      case as_string (json_get ''description'' ms) of None \<Rightarrow> None | Some d \<Rightarrow>
      case as_string (json_get ''date'' ms) of None \<Rightarrow> None | Some dt \<Rightarrow>
        Some \<lparr>ident = i, amount = a, raw_amount = r, ttype = ty, category = c,
              description = d, date = dt\<rparr>)"

definition transaction_of_json :: "json \<Rightarrow> transaction option" where
  "transaction_of_json j =
     (case j of
        JObject ms \<Rightarrow>
          if set (map fst ms) \<subseteq> set transaction_keys then transaction_of_members ms
          else None
      | _ \<Rightarrow> None)"

definition str_of_int :: "int \<Rightarrow> string" where
  "str_of_int i = (if i < 0 then ''-'' @ digits_of (- i) else digits_of i)"

text \<open>
  \<open>Decimal(str(v))\<close> for a value \<open>v\<close> of the file. The outer \<open>None\<close> is for a JSON float,
  whose \<open>str\<close> the model does not have; the inner \<open>None\<close> is the exception of \<open>Decimal\<close>,
  raised on every other value that is neither a string nor an integer.
\<close>

definition decimal_of_json :: "json \<Rightarrow> decimal option option" where
  "decimal_of_json j =
     (case j of
        JString s \<Rightarrow> Some (Decimal_of_string s)
      | JInt i \<Rightarrow> Some (Decimal_of_string (str_of_int i))
      | JFloat x \<Rightarrow> None
      | _ \<Rightarrow> Some None)"

text \<open>
  \<open>load_data()\<close>, called by \<open>__init__\<close> on the fresh object. \<open>Loaded\<close> is the object after
  a load without exception, \<open>LoadError\<close> the object as the caught exception leaves it
  (the fields assigned before it are kept), \<open>Unrepresented\<close> a file whose content the
  model does not represent.
\<close>

datatype load_result = Loaded wallet | LoadError wallet | Unrepresented

definition get_or :: "string \<Rightarrow> json \<Rightarrow> (string \<times> json) list \<Rightarrow> json" where
  "get_or k d ms = (case json_get k ms of None \<Rightarrow> d | Some v \<Rightarrow> v)"

definition load_data :: "json option \<Rightarrow> wallet \<Rightarrow> load_result" where
  "load_data file w =
     (case file of
        None \<Rightarrow> Loaded (w\<lparr>balance := Decimal 0 (- 2), budget := Decimal 0 (- 2),
                            transactions := []\<rparr>)
      | Some (JObject ms) \<Rightarrow>
          (case get_or ''transactions'' (JArray []) ms of
             JArray js \<Rightarrow>
               (case read_all (map transaction_of_json js) of
                  None \<Rightarrow> Unrepresented
                | Some ts \<Rightarrow>
                    (let w1 = w\<lparr>transactions := ts\<rparr>
                     in case decimal_of_json (get_or ''balance'' (JString ''0.00'') ms) of
                          None \<Rightarrow> Unrepresented
                        | Some None \<Rightarrow> LoadError w1
                        | Some (Some b) \<Rightarrow>
                            (let w2 = w1\<lparr>balance := b\<rparr>
                             in case decimal_of_json (get_or ''budget'' (JString ''0.00'') ms) of
                                  None \<Rightarrow> Unrepresented
                                | Some None \<Rightarrow> LoadError w2
                                | Some (Some g) \<Rightarrow> Loaded (w2\<lparr>budget := g\<rparr>))))
           | _ \<Rightarrow> Unrepresented)
      | Some _ \<Rightarrow> LoadError w)"

subsection \<open>Sequences of operations\<close>

text \<open>
  The interface calls one method per user action, shows the message of a failed one
  and goes on with the object as the call left it.
\<close>

datatype operation =
    Add string string string string string
  | Delete int

fun apply_operation :: "operation \<Rightarrow> wallet \<Rightarrow> failure option \<times> wallet" where
  "apply_operation (Add amount_text trans_type cat descr now) w =
     add_transaction amount_text trans_type cat descr now w"
| "apply_operation (Delete trans_id) w = delete_transaction trans_id w"

fun run :: "operation list \<Rightarrow> wallet \<Rightarrow> wallet" where
  "run [] w = w"
| "run (x # xs) w = run xs (snd (apply_operation x w))"

subsection \<open>Well-formed stores\<close>

text \<open>
  A store whose amounts can all be read back by \<open>delete_transaction\<close>. Every store that
  the two operations build from the empty one is of this kind (\<open>run_readable\<close> below).
\<close>

definition amounts_readable :: "wallet \<Rightarrow> bool" where
  "amounts_readable w = list_all (\<lambda>t. unsigned_amount t \<noteq> None) (transactions w)"

text \<open>
  A record as \<open>add_transaction\<close> writes it: the type is Income or Expense, and the
  amount is the sign of the type, a dollar sign and a number of cents written with two
  places. \<open>cents\<close> is that number.
\<close>

definition cents :: "transaction \<Rightarrow> int" where
  "cents t = (case unsigned_amount t of None \<Rightarrow> 0 | Some d \<Rightarrow> coeff d)"

definition in_cents :: "transaction \<Rightarrow> bool" where
  "in_cents t =
     (case unsigned_amount t of
        None \<Rightarrow> False
      | Some d \<Rightarrow>
          0 \<le> coeff d \<and> expo d = - 2
          \<and> ((ttype t = ''Income'' \<and> amount t = ''+$'' @ format_2f d)
              \<or> (ttype t = ''Expense'' \<and> amount t = ''-$'' @ format_2f d)))"


section \<open>The task panel (\<open>panel2.py\<close>, class \<open>TaskPanel\<close>)\<close>

text \<open>
  An item of the master list \<open>self.items\<close> (its key \<open>done\<close> is the field \<open>is_done\<close>), and the dictionary that \<open>_rebuild_tree\<close>
  keeps for a row and that \<open>save_tasks\<close> writes. The panel holds the items, the next
  id, the three filter variables, the rows of the tree (their ids, in order) and
  \<open>self.metas\<close>, which maps the id of a row to its dictionary. The metas are kept as
  JSON text in the source and parsed again when saved; the model keeps the dictionary.
  The storage by category \<open>self.tasks_data\<close> is written by the actions and read by
  neither the view nor \<open>save_tasks\<close>; it is left out.
\<close>

record item =
  item_id :: int
  cat :: string
  priority :: string
  task :: string
  time :: string
  is_done :: bool

record saved_task =
  saved_id :: int
  saved_category :: string
  saved_priority :: string
  saved_text :: string
  saved_created :: string
  saved_done :: bool

record panel =
  items :: "item list"
  next_id :: int
  search_var :: string
  filter_var :: string
  category_filter_var :: string
  tree :: "string list"
  metas :: "(string \<times> saved_task) list"
  tasks_file :: "saved_task list option"

text \<open>\<open>q in hay\<close> for strings.\<close>

fun contains :: "string \<Rightarrow> string \<Rightarrow> bool" where
  "contains [] q = (q = [])"
| "contains (h # hs) q = (startswith (h # hs) q \<or> contains hs q)"

definition lower :: "string \<Rightarrow> string" where
  "lower s = map lower_char s"

definition passes_filters :: "panel \<Rightarrow> item \<Rightarrow> bool" where
  "passes_filters p it =
     (let q = lower (strip (search_var p));
          cat_filter = category_filter_var p;
          status_filter = filter_var p;
          status_label = (if is_done it then ''Completed'' else ''Pending'')
      in if cat_filter \<noteq> ''All'' \<and> cat it \<noteq> cat_filter then False
         else if status_filter \<noteq> ''All'' \<and> status_filter \<noteq> status_label then False
         else if q \<noteq> []
                 \<and> \<not> contains
                       (lower (task it @ '' '' @ cat it @ '' '' @ priority it @ '' '' @ time it)) q
              then False
         else True)"

definition meta_of :: "item \<Rightarrow> saved_task" where
  "meta_of it =
     \<lparr>saved_id = item_id it, saved_category = cat it, saved_priority = priority it,
      saved_text = task it, saved_created = time it, saved_done = is_done it\<rparr>"

text \<open>
  \<open>_rebuild_tree()\<close>: the rows and the metas are cleared and rebuilt from the items
  that pass the filters. The ids of the items are distinct (they come from
  \<open>_next_id\<close>), so no row is inserted twice.
\<close>

definition rebuild_tree :: "panel \<Rightarrow> panel" where
  "rebuild_tree p =
     (let shown = filter (passes_filters p) (items p)
      in p\<lparr>tree := map (\<lambda>it. str_of_int (item_id it)) shown,
            metas := map (\<lambda>it. (str_of_int (item_id it), meta_of it)) shown\<rparr>)"

text \<open>\<open>save_tasks()\<close>: the dictionaries of the rows of the tree are written to the file.\<close>

definition save_tasks :: "panel \<Rightarrow> panel" where
  "save_tasks p =
     p\<lparr>tasks_file :=
          Some (List.map_filter (\<lambda>item_id. map_of (metas p) item_id) (tree p))\<rparr>"

text \<open>
  \<open>add_task()\<close>, with the text of the entry, the chosen category and priority, and
  \<open>stamp = datetime.now().strftime("%Y-%m-%d %H:%M")\<close>. An empty text or no chosen
  category shows a message and changes nothing.
\<close>

definition add_task :: "string \<Rightarrow> string \<Rightarrow> string \<Rightarrow> string \<Rightarrow> panel \<Rightarrow> panel" where
  "add_task task_text category_text priority_text stamp p =
     (let text = strip task_text;
          c = strip category_text;
          pr = (if strip priority_text = [] then ''Medium'' else strip priority_text)
      in if text = [] then p
         else if c = ''Category'' then p
         else
           save_tasks (rebuild_tree
             (p\<lparr>items := items p @
                    [\<lparr>item_id = next_id p, cat = c, priority = pr, task = text,
                      time = stamp, is_done = False\<rparr>],
                next_id := next_id p + 1\<rparr>)))"

text \<open>Choosing a category in the filter box calls \<open>filter_tasks\<close>, which rebuilds the tree.\<close>

definition select_category_filter :: "string \<Rightarrow> panel \<Rightarrow> panel" where
  "select_category_filter c p = rebuild_tree (p\<lparr>category_filter_var := c\<rparr>)"

text \<open>The panel after \<open>__init__\<close> when no task file exists.\<close>

definition empty_panel :: panel where
  "empty_panel =
     \<lparr>items = [], next_id = 1, search_var = '''', filter_var = ''All'',
      category_filter_var = ''All'', tree = [], metas = [], tasks_file = None\<rparr>"

section \<open>Reading back what was written\<close>

text \<open>
  The digits that \<open>format_2f\<close> and \<open>str_of_decimal\<close> write are the digits that the
  \<open>Decimal\<close> constructor reads.
\<close>

lemma digit_cases:
  assumes "0 \<le> n" "n < 10"
  shows "n \<in> {0, 1, 2, 3, 4, 5, 6, 7, 8, 9 :: int}"
  using assms by simp arith

lemma digit_val_digit_char:
  assumes "0 \<le> n" "n < 10"
  shows "digit_val (digit_char n) = Some n"
  using digit_cases [OF assms] by (auto simp: digit_val_def digit_char_def)

lemma digit_char_digit:
  assumes "0 \<le> n" "n < 10"
  shows "digit_char n \<in> digit_chars"
  using digit_cases [OF assms] by (auto simp: digit_char_def digit_chars_def)

lemma digits_of_digits:
  "0 \<le> n \<Longrightarrow> set (digits_of n) \<subseteq> digit_chars"
proof (induction n rule: digits_of.induct)
  case (1 n)
  show ?case
  proof (cases "n < 10")
    case True
    with 1(2) show ?thesis
      using digit_char_digit [of n] by (subst digits_of.simps) simp
  next
    case False
    have m: "digit_char (n mod 10) \<in> digit_chars"
      by (rule digit_char_digit) simp_all
    from 1(2) have "0 \<le> n div 10"
      by simp
    with 1(1) [OF False] have "set (digits_of (n div 10)) \<subseteq> digit_chars"
      by simp
    with False m show ?thesis
      by (subst digits_of.simps) simp
  qed
qed

lemma digits_of_nonempty: "digits_of n \<noteq> []"
  by (subst digits_of.simps) simp

lemma digit_not_mark:
  assumes "c \<in> digit_chars"
  shows "\<not> is_space c" "c \<noteq> CHR ''_''" "c \<noteq> CHR ''.''" "\<not> exponent_mark c"
    "c \<noteq> CHR ''+''" "c \<noteq> CHR ''-''" "c \<noteq> CHR ''$''"
  using assms by (auto simp: is_space_def exponent_mark_def digit_chars_def)

lemma parse_digits_append:
  "parse_digits acc (xs @ ys) =
     (case parse_digits acc xs of None \<Rightarrow> None | Some v \<Rightarrow> parse_digits v ys)"
  by (induction xs arbitrary: acc) (auto split: option.splits)

lemma parse_digits_digits_of:
  "0 \<le> n \<Longrightarrow> parse_digits 0 (digits_of n) = Some n"
proof (induction n rule: digits_of.induct)
  case (1 n)
  show ?case
  proof (cases "n < 10")
    case True
    with 1 show ?thesis
      by (subst digits_of.simps) (simp add: digit_val_digit_char)
  next
    case False
    with 1 have ih: "parse_digits 0 (digits_of (n div 10)) = Some (n div 10)"
      by simp
    have d: "digit_val (digit_char (n mod 10)) = Some (n mod 10)"
      by (rule digit_val_digit_char) simp_all
    from False show ?thesis
      by (subst digits_of.simps) (simp add: parse_digits_append ih d)
  qed
qed

lemma parse_digits_zeros:
  "parse_digits 0 (replicate k CHR ''0'' @ s) = parse_digits 0 s"
  by (induction k) (simp_all add: digit_val_def)

lemma strip_plain:
  assumes "\<forall>c\<in>set s. \<not> is_space c"
  shows "strip s = s"
proof -
  have "dropWhile is_space s = s"
    using assms by (cases s) auto
  moreover have "dropWhile is_space (rev s) = rev s"
    using assms by (cases "rev s") (auto dest: arg_cong [where f = set])
  ultimately show ?thesis
    by (simp add: strip_def)
qed

lemma remove_char_absent: "c \<notin> set s \<Longrightarrow> remove_char c s = s"
  by (auto simp: remove_char_def filter_id_conv)

lemma remove_char_Cons:
  "remove_char c (x # xs) = (if x = c then remove_char c xs else x # remove_char c xs)"
  by (simp add: remove_char_def)

text \<open>Splitting a number at its point and at its exponent mark.\<close>

lemma parse_unsigned_point:
  assumes "CHR ''.'' \<notin> set ip"
  shows "parse_unsigned (ip @ CHR ''.'' # fp) =
           (if ip @ fp = [] then None
            else map_option (\<lambda>n. Decimal n (- int (length fp))) (parse_digits 0 (ip @ fp)))"
proof -
  from assms have nodot: "\<forall>x\<in>set ip. x \<noteq> CHR ''.''"
    by auto
  have tw: "takeWhile (\<lambda>x. x \<noteq> CHR ''.'') (ip @ CHR ''.'' # fp) = ip"
    using nodot by (simp add: takeWhile_append2)
  have dw: "dropWhile (\<lambda>x. x \<noteq> CHR ''.'') (ip @ CHR ''.'' # fp) = CHR ''.'' # fp"
    using nodot by (simp add: dropWhile_append2)
  show ?thesis
    unfolding parse_unsigned_def tw dw Let_def
    by (simp split: option.splits)
qed

lemma parse_unsigned_whole:
  assumes "CHR ''.'' \<notin> set ip"
  shows "parse_unsigned ip =
           (if ip = [] then None else map_option (\<lambda>n. Decimal n 0) (parse_digits 0 ip))"
proof -
  from assms have tw: "takeWhile (\<lambda>x. x \<noteq> CHR ''.'') ip = ip"
    by (auto simp: takeWhile_eq_all_conv)
  from assms have dw: "dropWhile (\<lambda>x. x \<noteq> CHR ''.'') ip = []"
    by auto
  show ?thesis
    unfolding parse_unsigned_def tw dw Let_def
    by (simp split: option.splits)
qed

lemma parse_number_plain:
  assumes "\<forall>c\<in>set m. \<not> exponent_mark c"
  shows "parse_number m = parse_unsigned m"
proof -
  from assms have tw: "takeWhile (\<lambda>c. \<not> exponent_mark c) m = m"
    by (auto simp: takeWhile_eq_all_conv)
  from assms have dw: "dropWhile (\<lambda>c. \<not> exponent_mark c) m = []"
    by auto
  show ?thesis
    unfolding parse_number_def tw dw Let_def
    by (simp split: option.splits)
qed

lemma parse_number_exponent:
  assumes "\<forall>c\<in>set m. \<not> exponent_mark c"
  shows "parse_number (m @ CHR ''E'' # x) =
           (case parse_unsigned m of
              None \<Rightarrow> None
            | Some d \<Rightarrow>
                (case parse_exponent x of
                   None \<Rightarrow> None
                 | Some k \<Rightarrow> Some (Decimal (coeff d) (expo d + k))))"
proof -
  have tw: "takeWhile (\<lambda>c. \<not> exponent_mark c) (m @ CHR ''E'' # x) = m"
    using assms by (simp add: takeWhile_append2 exponent_mark_def)
  have dw: "dropWhile (\<lambda>c. \<not> exponent_mark c) (m @ CHR ''E'' # x) = CHR ''E'' # x"
    using assms by (simp add: dropWhile_append2 exponent_mark_def)
  show ?thesis
    unfolding parse_number_def tw dw Let_def
    by (simp split: option.splits)
qed

text \<open>What \<open>format_2f\<close> writes is read back as the amount in cents.\<close>

lemma cents_of_nonneg: "0 \<le> cents_of d"
  unfolding cents_of_def round_half_even_def Let_def
  by (auto simp: pos_imp_zdiv_nonneg_iff)

lemma cents_decompose:
  fixes c :: int
  shows "100 * (c div 100) + 10 * (c mod 100 div 10) + c mod 10 = c"
proof -
  have a: "c mod 100 mod 10 = c mod 10"
    by (simp add: mod_mod_cancel)
  have b: "10 * (c mod 100 div 10) + c mod 100 mod 10 = c mod 100"
    by (rule mult_div_mod_eq)
  have c: "100 * (c div 100) + c mod 100 = c"
    by (rule mult_div_mod_eq)
  from a b c show ?thesis
    by linarith
qed

lemma format_2f_nonneg:
  assumes "0 \<le> coeff a"
  shows "format_2f a = digits_of (cents_of a div 100) @ CHR ''.'' #
           [digit_char (cents_of a mod 100 div 10), digit_char (cents_of a mod 10)]"
  using assms by (simp add: format_2f_def Let_def)

lemma format_2f_chars:
  assumes "0 \<le> coeff a"
  shows "set (format_2f a) \<subseteq> insert CHR ''.'' digit_chars"
proof -
  let ?c = "cents_of a"
  have q: "0 \<le> ?c div 100"
    using cents_of_nonneg [of a] by simp
  have d1: "digit_char (?c mod 100 div 10) \<in> digit_chars"
    by (rule digit_char_digit) simp_all
  have d2: "digit_char (?c mod 10) \<in> digit_chars"
    by (rule digit_char_digit) simp_all
  from digits_of_digits [OF q] d1 d2 show ?thesis
    unfolding format_2f_nonneg [OF assms] by (simp add: subset_insertI2)
qed

lemma format_2f_head:
  assumes "0 \<le> coeff a"
  shows "\<exists>x xs. format_2f a = x # xs \<and> x \<in> digit_chars"
proof -
  let ?c = "cents_of a"
  have q: "0 \<le> ?c div 100"
    using cents_of_nonneg [of a] by simp
  obtain x xs where ip: "digits_of (?c div 100) = x # xs"
    using digits_of_nonempty [of "?c div 100"] by (cases "digits_of (?c div 100)") auto
  then have "x \<in> set (digits_of (?c div 100))"
    by simp
  with digits_of_digits [OF q] have "x \<in> digit_chars"
    by blast
  then show ?thesis
    by (simp add: format_2f_nonneg [OF assms] ip)
qed

lemma plain_not_mark:
  assumes "c \<in> insert CHR ''.'' digit_chars"
  shows "\<not> is_space c" "c \<noteq> CHR ''_''" "\<not> exponent_mark c"
    "c \<noteq> CHR ''+''" "c \<noteq> CHR ''-''" "c \<noteq> CHR ''$''"
  using assms by (auto simp: is_space_def exponent_mark_def digit_chars_def)

lemma parse_unsigned_format_2f:
  assumes "0 \<le> coeff a"
  shows "parse_unsigned (format_2f a) = Some (Decimal (cents_of a) (- 2))"
proof -
  let ?c = "cents_of a"
  let ?ip = "digits_of (?c div 100)"
  let ?d1 = "digit_char (?c mod 100 div 10)"
  let ?d2 = "digit_char (?c mod 10)"
  have q: "0 \<le> ?c div 100"
    using cents_of_nonneg [of a] by simp
  have nodot: "CHR ''.'' \<notin> set ?ip"
    using digits_of_digits [OF q] digit_not_mark(3) by blast
  have v1: "digit_val ?d1 = Some (?c mod 100 div 10)"
    by (rule digit_val_digit_char) simp_all
  have v2: "digit_val ?d2 = Some (?c mod 10)"
    by (rule digit_val_digit_char) simp_all
  have pd: "parse_digits 0 (?ip @ [?d1, ?d2]) = Some ?c"
    by (simp add: parse_digits_append parse_digits_digits_of [OF q] v1 v2 cents_decompose)
  show ?thesis
    unfolding format_2f_nonneg [OF assms] parse_unsigned_point [OF nodot]
    using pd by (simp add: digits_of_nonempty)
qed

lemma Decimal_of_string_format_2f:
  assumes "0 \<le> coeff a"
  shows "Decimal_of_string (format_2f a) = Some (Decimal (cents_of a) (- 2))"
proof -
  have chars: "set (format_2f a) \<subseteq> insert CHR ''.'' digit_chars"
    by (rule format_2f_chars [OF assms])
  then have "\<forall>c\<in>set (format_2f a). \<not> is_space c"
    using plain_not_mark(1) by blast
  then have s: "strip (format_2f a) = format_2f a"
    by (rule strip_plain)
  from chars have "CHR ''_'' \<notin> set (format_2f a)"
    using plain_not_mark(2) by blast
  then have u: "remove_char CHR ''_'' (format_2f a) = format_2f a"
    by (rule remove_char_absent)
  from chars have "\<forall>c\<in>set (format_2f a). \<not> exponent_mark c"
    using plain_not_mark(3) by blast
  then have n: "parse_number (format_2f a) = parse_unsigned (format_2f a)"
    by (rule parse_number_plain)
  obtain x xs where h: "format_2f a = x # xs" "x \<in> digit_chars"
    using format_2f_head [OF assms] by blast
  from h(2) have x: "x \<noteq> CHR ''-''" "x \<noteq> CHR ''+''"
    using digit_not_mark by blast+
  have "Decimal_of_string (format_2f a) = parse_number (format_2f a)"
    unfolding Decimal_of_string_def s u using x by (simp add: h(1))
  then show ?thesis
    by (simp add: n parse_unsigned_format_2f [OF assms])
qed

lemma unsigned_amount_signed:
  assumes "0 \<le> coeff a" and "amount t = ''+$'' @ format_2f a \<or> amount t = ''-$'' @ format_2f a"
  shows "unsigned_amount t = Some (Decimal (cents_of a) (- 2))"
proof -
  have chars: "set (format_2f a) \<subseteq> insert CHR ''.'' digit_chars"
    by (rule format_2f_chars [OF assms(1)])
  have n: "CHR ''$'' \<notin> set (format_2f a)" "CHR ''+'' \<notin> set (format_2f a)"
    "CHR ''-'' \<notin> set (format_2f a)"
    using chars plain_not_mark(4,5,6) by blast+
  have r: "remove_char CHR ''$'' (format_2f a) = format_2f a"
    "remove_char CHR ''+'' (format_2f a) = format_2f a"
    "remove_char CHR ''-'' (format_2f a) = format_2f a"
    using n by (simp_all add: remove_char_absent)
  have "remove_char CHR ''-'' (remove_char CHR ''+'' (remove_char CHR ''$'' (amount t)))
          = format_2f a"
    using assms(2) by (auto simp: remove_char_Cons r)
  then show ?thesis
    by (simp add: unsigned_amount_def Decimal_of_string_format_2f [OF assms(1)])
qed

lemma positive_coeff: "\<not> dec_le a dec_zero \<Longrightarrow> 0 < coeff a"
  by (auto simp: dec_le_def dec_zero_def Decimal_def align_def Let_def zero_less_mult_iff
      not_le)

lemma unsigned_amount_new_transaction:
  assumes "0 \<le> coeff a"
  shows "unsigned_amount (new_transaction a trans_type ctg descr now w)
           = Some (Decimal (cents_of a) (- 2))"
  by (rule unsigned_amount_signed [OF assms]) (simp add: new_transaction_def)


text \<open>What \<open>str_of_decimal\<close> writes is read back as the same coefficient and exponent.\<close>

lemma parse_exponent_written:
  "parse_exponent ((if 0 \<le> k then ''+'' else ''-'') @ digits_of \<bar>k\<bar>) = Some k"
  by (simp add: parse_exponent_def parse_nonempty_digits_def digits_of_nonempty
      parse_digits_digits_of)

lemma mantissa_read:
  assumes a: "0 \<le> a" and ds: "ds = digits_of a" and n: "n = int (length ds)"
    and dp: "dotplace \<le> n"
  defines "intpart \<equiv>
     (if dotplace \<le> 0 then ''0''
      else if n \<le> dotplace then ds @ replicate (nat (dotplace - n)) CHR ''0''
      else take (nat dotplace) ds)"
  defines "fracpart \<equiv>
     (if dotplace \<le> 0 then ''.'' @ replicate (nat (- dotplace)) CHR ''0'' @ ds
      else if n \<le> dotplace then ''''
      else ''.'' @ drop (nat dotplace) ds)"
  shows "parse_unsigned (intpart @ fracpart) = Some (Decimal a (dotplace - n))"
    and "set (intpart @ fracpart) \<subseteq> insert CHR ''.'' digit_chars"
    and "\<exists>x xs. intpart @ fracpart = x # xs \<and> x \<in> digit_chars"
proof -
  have dig: "set ds \<subseteq> digit_chars"
    unfolding ds by (rule digits_of_digits [OF a])
  have ne: "ds \<noteq> []"
    unfolding ds by (rule digits_of_nonempty)
  have pd: "parse_digits 0 ds = Some a"
    unfolding ds by (rule parse_digits_digits_of [OF a])
  have nodot: "CHR ''.'' \<notin> set ds"
    using dig digit_not_mark(3) by blast
  have zero: "CHR ''0'' \<in> digit_chars"
    by (simp add: digit_chars_def)
  obtain x xs where xs: "ds = x # xs"
    using ne by (cases ds) auto
  then have x: "x \<in> digit_chars"
    using dig by auto
  consider (small) "dotplace \<le> 0" | (whole) "dotplace = n" | (split) "0 < dotplace" "dotplace < n"
    using dp by linarith
  then have "parse_unsigned (intpart @ fracpart) = Some (Decimal a (dotplace - n))
      \<and> set (intpart @ fracpart) \<subseteq> insert CHR ''.'' digit_chars
      \<and> (\<exists>x xs. intpart @ fracpart = x # xs \<and> x \<in> digit_chars)"
  proof cases
    case small
    let ?z = "replicate (nat (- dotplace)) CHR ''0''"
    have s: "intpart @ fracpart = ''0'' @ CHR ''.'' # (?z @ ds)"
      using small by (simp add: intpart_def fracpart_def)
    have "parse_digits 0 (''0'' @ ?z @ ds) = Some a"
      using parse_digits_zeros [of "nat (- dotplace)" ds] pd by (simp add: digit_val_def)
    moreover have "- int (length (?z @ ds)) = dotplace - n"
      using small n by simp
    ultimately have "parse_unsigned (intpart @ fracpart) = Some (Decimal a (dotplace - n))"
      unfolding s by (subst parse_unsigned_point) simp_all
    moreover have "set (intpart @ fracpart) \<subseteq> insert CHR ''.'' digit_chars"
      unfolding s using dig zero by auto
    moreover have "\<exists>x xs. intpart @ fracpart = x # xs \<and> x \<in> digit_chars"
      unfolding s using zero by simp
    ultimately show ?thesis
      by blast
  next
    case whole
    have s: "intpart @ fracpart = ds"
      using whole n ne by (simp add: intpart_def fracpart_def)
    have "parse_unsigned ds = Some (Decimal a 0)"
      using pd ne by (simp add: parse_unsigned_whole [OF nodot])
    then show ?thesis
      unfolding s using whole dig xs x by auto
  next
    case split
    let ?k = "nat dotplace"
    have s: "intpart @ fracpart = take ?k ds @ CHR ''.'' # drop ?k ds"
      using split by (simp add: intpart_def fracpart_def)
    have nd: "CHR ''.'' \<notin> set (take ?k ds)"
      using nodot by (meson in_set_takeD)
    have len: "- int (length (drop ?k ds)) = dotplace - n"
      using split n by simp
    have "parse_unsigned (intpart @ fracpart) = Some (Decimal a (dotplace - n))"
      unfolding s parse_unsigned_point [OF nd] using pd ne len by simp
    moreover have "set (intpart @ fracpart) \<subseteq> insert CHR ''.'' digit_chars"
    proof -
      have "set (take ?k ds) \<subseteq> digit_chars" "set (drop ?k ds) \<subseteq> digit_chars"
        using dig set_take_subset [of ?k ds] set_drop_subset [of ?k ds] by blast+
      then show ?thesis
        unfolding s by auto
    qed
    moreover have "\<exists>x xs. intpart @ fracpart = x # xs \<and> x \<in> digit_chars"
    proof -
      from split obtain j where "?k = Suc j"
        by (cases ?k) auto
      then show ?thesis
        unfolding s using xs x by simp
    qed
    ultimately show ?thesis
      by blast
  qed
  then show "parse_unsigned (intpart @ fracpart) = Some (Decimal a (dotplace - n))"
    and "set (intpart @ fracpart) \<subseteq> insert CHR ''.'' digit_chars"
    and "\<exists>x xs. intpart @ fracpart = x # xs \<and> x \<in> digit_chars"
    by blast+
qed


lemma decimal_fields: "Decimal (coeff d) (expo d) = (d :: decimal)"
  by (simp add: Decimal_def)

lemma Decimal_of_string_str_of_decimal:
  "Decimal_of_string (str_of_decimal d) = Some d"
proof -
  define a where "a = \<bar>coeff d\<bar>"
  define ds where "ds = digits_of a"
  define n where "n = int (length ds)"
  define leftdigits where "leftdigits = expo d + n"
  define dotplace where
    "dotplace = (if expo d \<le> 0 \<and> - 6 < leftdigits then leftdigits else 1)"
  define intpart where "intpart =
     (if dotplace \<le> 0 then ''0''
      else if n \<le> dotplace then ds @ replicate (nat (dotplace - n)) CHR ''0''
      else take (nat dotplace) ds)"
  define fracpart where "fracpart =
     (if dotplace \<le> 0 then ''.'' @ replicate (nat (- dotplace)) CHR ''0'' @ ds
      else if n \<le> dotplace then ''''
      else ''.'' @ drop (nat dotplace) ds)"
  define ex where "ex =
     (if leftdigits = dotplace then ''''
      else ''E'' @ (if 0 \<le> leftdigits - dotplace then ''+'' else ''-'') @
           digits_of \<bar>leftdigits - dotplace\<bar>)"
  define body where "body = intpart @ fracpart @ ex"
  have str: "str_of_decimal d = (if coeff d < 0 then ''-'' else '''') @ body"
    unfolding str_of_decimal_def Let_def body_def ex_def fracpart_def intpart_def
      dotplace_def leftdigits_def n_def ds_def a_def
    by (rule refl)
  have a: "0 \<le> a"
    by (simp add: a_def)
  have ne: "ds \<noteq> []"
    unfolding ds_def by (rule digits_of_nonempty)
  then have n1: "1 \<le> n"
    by (cases ds) (simp_all add: n_def)
  have dp: "dotplace \<le> n"
    using n1 by (simp add: dotplace_def leftdigits_def)
  note m = mantissa_read [OF a ds_def n_def dp, folded intpart_def fracpart_def]
  have mchars: "set (intpart @ fracpart) \<subseteq> insert CHR ''.'' digit_chars"
    by (rule m(2))
  obtain x xs where hd: "intpart @ fracpart = x # xs" "x \<in> digit_chars"
    using m(3) by blast
  text \<open>The body is read as the magnitude.\<close>
  have nomark: "\<forall>c\<in>set (intpart @ fracpart). \<not> exponent_mark c"
    using mchars plain_not_mark(3) by blast
  have body: "parse_number body = Some (Decimal a (expo d))"
  proof (cases "leftdigits = dotplace")
    case True
    then have "body = intpart @ fracpart"
      by (simp add: body_def ex_def)
    moreover from True have "dotplace - n = expo d"
      by (simp add: leftdigits_def)
    ultimately show ?thesis
      using parse_number_plain [OF nomark] m(1) by simp
  next
    case False
    let ?k = "leftdigits - dotplace"
    have b: "body = (intpart @ fracpart) @ CHR ''E'' #
               ((if 0 \<le> ?k then ''+'' else ''-'') @ digits_of \<bar>?k\<bar>)"
      using False by (simp add: body_def ex_def)
    have e: "dotplace - n + ?k = expo d"
      by (simp add: leftdigits_def)
    show ?thesis
      unfolding b parse_number_exponent [OF nomark] m(1) parse_exponent_written
      using e by (simp add: Decimal_def)
  qed
  text \<open>Nothing is stripped and no underscore is removed.\<close>
  have exchars: "set ex \<subseteq> insert CHR ''E'' (insert CHR ''+'' (insert CHR ''-'' digit_chars))"
  proof -
    have "set (digits_of \<bar>leftdigits - dotplace\<bar>) \<subseteq> digit_chars"
      by (rule digits_of_digits) simp
    then show ?thesis
      by (auto simp: ex_def)
  qed
  have all_chars: "set (str_of_decimal d) \<subseteq>
      insert CHR ''E'' (insert CHR ''+'' (insert CHR ''-'' (insert CHR ''.'' digit_chars)))"
  proof -
    have "set body \<subseteq>
        insert CHR ''E'' (insert CHR ''+'' (insert CHR ''-'' (insert CHR ''.'' digit_chars)))"
      using mchars exchars unfolding body_def by auto
    then show ?thesis
      unfolding str by auto
  qed
  have written: "\<not> is_space c \<and> c \<noteq> CHR ''_''"
    if "c \<in> insert CHR ''E'' (insert CHR ''+'' (insert CHR ''-'' (insert CHR ''.'' digit_chars)))"
    for c
    using that by (auto simp: is_space_def digit_chars_def)
  have "\<forall>c\<in>set (str_of_decimal d). \<not> is_space c"
    using all_chars written by blast
  then have s: "strip (str_of_decimal d) = str_of_decimal d"
    by (rule strip_plain)
  have "CHR ''_'' \<notin> set (str_of_decimal d)"
    using all_chars written by blast
  then have u: "remove_char CHR ''_'' (str_of_decimal d) = str_of_decimal d"
    by (rule remove_char_absent)
  have bhd: "body = x # (xs @ ex)"
    using hd(1) by (simp add: body_def)
  have x: "x \<noteq> CHR ''-''" "x \<noteq> CHR ''+''"
    using hd(2) digit_not_mark by blast+
  show ?thesis
  proof (cases "coeff d < 0")
    case True
    then have "Decimal_of_string (str_of_decimal d) = map_option dec_neg (parse_number body)"
      unfolding Decimal_of_string_def s u by (simp add: str)
    also have "\<dots> = Some (Decimal (- a) (expo d))"
      by (simp add: body dec_neg_def Decimal_def)
    also from True have "- a = coeff d"
      by (simp add: a_def)
    finally show ?thesis
      by (simp add: decimal_fields)
  next
    case False
    then have "Decimal_of_string (str_of_decimal d) = parse_number body"
      unfolding Decimal_of_string_def s u using x by (simp add: str bhd)
    also have "\<dots> = Some (Decimal a (expo d))"
      by (rule body)
    also from False have "a = coeff d"
      by (simp add: a_def)
    finally show ?thesis
      by (simp add: decimal_fields)
  qed
qed

text \<open>Every store built by the two operations has readable amounts.\<close>

lemma add_transaction_readable:
  assumes "amounts_readable w"
  shows "amounts_readable (snd (add_transaction amount_text trans_type ctg descr now w))"
proof (cases "Decimal_of_string amount_text")
  case None
  with assms show ?thesis
    by (simp add: add_transaction_def)
next
  case (Some a)
  show ?thesis
  proof (cases "dec_le a dec_zero")
    case True
    with Some assms show ?thesis
      by (simp add: add_transaction_def)
  next
    case False
    then have "0 \<le> coeff a"
      using positive_coeff [of a] by simp
    then have "\<And>tt w'. unsigned_amount (new_transaction a tt ctg descr now w') \<noteq> None"
      by (simp add: unsigned_amount_new_transaction)
    with Some False assms show ?thesis
      by (simp add: add_transaction_def amounts_readable_def append_transaction_def Let_def)
  qed
qed

lemma delete_transaction_readable:
  assumes "amounts_readable w"
  shows "amounts_readable (snd (delete_transaction trans_id w))"
  using assms
  by (auto simp: delete_transaction_def amounts_readable_def Let_def list_all_iff
      split: option.splits)

lemma apply_operation_readable:
  "amounts_readable w \<Longrightarrow> amounts_readable (snd (apply_operation x w))"
  by (cases x) (simp_all add: add_transaction_readable delete_transaction_readable)

lemma run_readable: "amounts_readable w \<Longrightarrow> amounts_readable (run ops w)"
  by (induction ops arbitrary: w) (simp_all add: apply_operation_readable)

lemma empty_wallet_readable: "amounts_readable empty_wallet"
  by (simp add: amounts_readable_def empty_wallet_def)



section \<open>Properties of the wallet\<close>

subsection \<open>Identifiers\<close>

text \<open>
  C2. The ids of the stored records should be pairwise distinct and an id should
  never be given to a later record after a deletion. The wallet takes the id from
  the length of the list: two incomes are added, the first is deleted, and the
  third transaction gets the id 2, which the second one still holds.
\<close>

theorem id_reused_after_delete:
  "map ident (transactions (run
     [Add ''10.00'' ''income'' ''Salary'' '''' ''2024-01-05 10:00:00'',
      Add ''20.00'' ''income'' ''Bonus'' '''' ''2024-01-06 10:00:00'',
      Delete 1,
      Add ''5.00'' ''income'' ''Other'' '''' ''2024-01-07 10:00:00'']
     empty_wallet)) = [2, 2]"
  by code_simp

subsection \<open>Balance\<close>

text \<open>
  C1. The balance should be the sum of the signed amounts of the records present.
  After the sequence above, deleting id 2 takes the amount of the first record
  with that id off the balance and drops both records: no record is left and the
  balance shown is $5.00.
\<close>

theorem balance_drift_after_delete:
  "transactions (run
     [Add ''10.00'' ''income'' ''Salary'' '''' ''2024-01-05 10:00:00'',
      Add ''20.00'' ''income'' ''Bonus'' '''' ''2024-01-06 10:00:00'',
      Delete 1,
      Add ''5.00'' ''income'' ''Other'' '''' ''2024-01-07 10:00:00'',
      Delete 2]
     empty_wallet) = []
   \<and> get_balance (run
     [Add ''10.00'' ''income'' ''Salary'' '''' ''2024-01-05 10:00:00'',
      Add ''20.00'' ''income'' ''Bonus'' '''' ''2024-01-06 10:00:00'',
      Delete 1,
      Add ''5.00'' ''income'' ''Other'' '''' ''2024-01-07 10:00:00'',
      Delete 2]
     empty_wallet) = ''$5.00''"
  by code_simp

text \<open>
  The balance also leaves the records when an amount has more than two decimals: the
  balance takes the amount as entered and the record keeps it rounded to cents. Two
  incomes of 0.006 are stored as +$0.01 each; after both are deleted no record is
  left and the balance shown is $-0.01.
\<close>

lemma balance_drift_below_a_cent:
  "map amount (transactions (run
     [Add ''0.006'' ''income'' ''Other'' '''' ''2024-01-05 10:00:00'',
      Add ''0.006'' ''income'' ''Other'' '''' ''2024-01-06 10:00:00'']
     empty_wallet)) = [''+$0.01'', ''+$0.01'']
   \<and> transactions (run
     [Add ''0.006'' ''income'' ''Other'' '''' ''2024-01-05 10:00:00'',
      Add ''0.006'' ''income'' ''Other'' '''' ''2024-01-06 10:00:00'',
      Delete 1,
      Delete 2]
     empty_wallet) = []
   \<and> get_balance (run
     [Add ''0.006'' ''income'' ''Other'' '''' ''2024-01-05 10:00:00'',
      Add ''0.006'' ''income'' ''Other'' '''' ''2024-01-06 10:00:00'',
      Delete 1,
      Delete 2]
     empty_wallet) = ''$-0.01''"
  by code_simp

text \<open>
  C10. Deleting checks no balance: there is a store, reached by adding an income of
  10.00 and an expense of 5.00, whose balance (5.00) is below the amount of its
  income record; deleting that record succeeds and the balance is then negative.
\<close>

theorem delete_income_negative_balance:
  "\<exists>ops t a w'.
     find (\<lambda>r. ident r = 1) (transactions (run ops empty_wallet)) = Some t
     \<and> ttype t = ''Income''
     \<and> unsigned_amount t = Some a
     \<and> dec_less (balance (run ops empty_wallet)) a
     \<and> delete_transaction 1 (run ops empty_wallet) = (None, w')
     \<and> dec_less (balance w') dec_zero"
proof -
  let ?ops = "[Add ''10.00'' ''income'' ''Salary'' '''' ''2024-01-05 10:00:00'',
               Add ''5.00'' ''expense'' ''Food'' '''' ''2024-01-06 10:00:00'']"
  let ?t = "\<lparr>ident = 1, amount = ''+$10.00'', raw_amount = float_of_decimal (Decimal 1000 (- 2)),
             ttype = ''Income'', category = ''Salary'', description = ''No description'',
             date = ''2024-01-05 10:00:00''\<rparr>"
  let ?t2 = "\<lparr>ident = 2, amount = ''-$5.00'', raw_amount = float_of_decimal (Decimal 500 (- 2)),
             ttype = ''Expense'', category = ''Food'', description = ''No description'',
             date = ''2024-01-06 10:00:00''\<rparr>"
  let ?w' = "\<lparr>transactions = [?t2], balance = Decimal (- 500) (- 2), budget = Decimal 0 (- 2)\<rparr>"
  have 1: "find (\<lambda>r. ident r = 1) (transactions (run ?ops empty_wallet)) = Some ?t"
    by code_simp
  have 2: "unsigned_amount ?t = Some (Decimal 1000 (- 2))"
    by code_simp
  have 3: "dec_less (balance (run ?ops empty_wallet)) (Decimal 1000 (- 2))"
    by code_simp
  have 4: "delete_transaction 1 (run ?ops empty_wallet) = (None, ?w')"
    by code_simp
  have 5: "dec_less (balance ?w') dec_zero"
    by code_simp
  have 6: "ttype ?t = ''Income''"
    by simp
  from 1 2 3 4 5 6 show ?thesis
    by blast
qed

subsection \<open>Rejected operations\<close>

text \<open>
  C3, as stated: an expense above the balance is rejected with InsufficientBalance.
  The amount is checked first: in the store left by adding an income of 10.00, an
  expense of 5.00 and deleting the income, the balance is -5.00, and an expense of -1
  is above it but is rejected as an invalid amount.
\<close>

theorem expense_over_balance_counterexample:
  "Decimal_of_string ''-1'' = Some (Decimal (- 1) 0)
   \<and> dec_less
       (balance (run
          [Add ''10.00'' ''income'' ''Salary'' '''' ''2024-01-05 10:00:00'',
           Add ''5.00'' ''expense'' ''Food'' '''' ''2024-01-06 10:00:00'',
           Delete 1] empty_wallet))
       (Decimal (- 1) 0)
   \<and> fst (add_transaction ''-1'' ''expense'' ''Food'' '''' ''2024-01-07 10:00:00''
        (run
          [Add ''10.00'' ''income'' ''Salary'' '''' ''2024-01-05 10:00:00'',
           Add ''5.00'' ''expense'' ''Food'' '''' ''2024-01-06 10:00:00'',
           Delete 1] empty_wallet))
      = Some InvalidAmount"
  by code_simp

text \<open>
  C3, amended: an expense above the balance is rejected, with InsufficientBalance when
  the amount is positive and with InvalidAmount when it is not, and the store after
  the call is the store before it (same balance, same records).
\<close>

theorem expense_over_balance_rejected:
  assumes "Decimal_of_string amount_text = Some a" and "dec_less (balance w) a"
  shows "add_transaction amount_text ''expense'' ctg descr now w =
           (Some (if dec_le a dec_zero then InvalidAmount else InsufficientBalance), w)"
  using assms by (simp add: add_transaction_def)

theorem expense_over_balance_rejected_witness:
  "Decimal_of_string ''9999.00'' = Some (Decimal 999900 (- 2))
   \<and> dec_less
       (balance \<lparr>transactions = [], balance = Decimal 96000 (- 2), budget = Decimal 0 (- 2)\<rparr>)
       (Decimal 999900 (- 2))
   \<and> add_transaction ''9999.00'' ''expense'' ''Food'' '''' ''2024-01-07 10:00:00''
         \<lparr>transactions = [], balance = Decimal 96000 (- 2), budget = Decimal 0 (- 2)\<rparr>
       = (Some InsufficientBalance,
          \<lparr>transactions = [], balance = Decimal 96000 (- 2), budget = Decimal 0 (- 2)\<rparr>)"
proof -
  let ?w = "\<lparr>transactions = [], balance = Decimal 96000 (- 2), budget = Decimal 0 (- 2)\<rparr>"
  have r: "Decimal_of_string ''9999.00'' = Some (Decimal 999900 (- 2))"
    by code_simp
  have h: "dec_less (balance ?w) (Decimal 999900 (- 2))"
    by code_simp
  have p: "\<not> dec_le (Decimal 999900 (- 2)) dec_zero"
    by code_simp
  from expense_over_balance_rejected [OF r h, of "''Food''" "''''" "''2024-01-07 10:00:00''"] r h p
  show ?thesis
    by simp
qed



subsection \<open>Saving and loading\<close>

lemma transaction_of_json_written:
  "transaction_of_json (json_of_transaction t) = Some t"
  by (simp add: transaction_of_json_def json_of_transaction_def transaction_keys_def
      transaction_of_members_def json_get_def as_int_def as_string_def as_float_def)

lemma read_all_written:
  "read_all (map (transaction_of_json \<circ> json_of_transaction) ts) = Some ts"
  by (induction ts) (simp_all add: transaction_of_json_written)

lemma decimal_of_json_written:
  "decimal_of_json (JString (str_of_decimal d)) = Some (Some d)"
  by (simp add: decimal_of_json_def Decimal_of_string_str_of_decimal)

text \<open>
  C5. Loading the file that \<open>save_data\<close> wrote gives the saved state back: the same
  transactions field for field, and the balance and the budget with the same
  coefficient and the same exponent.
\<close>

theorem load_save_roundtrip:
  "load_data (Some (save_data now w)) w0 = Loaded w"
proof -
  let ?ms = "[(''transactions'', JArray (map json_of_transaction (transactions w))),
              (''balance'', JString (str_of_decimal (balance w))),
              (''budget'', JString (str_of_decimal (budget w))),
              (''last_updated'', JString now)]"
  have t: "get_or ''transactions'' (JArray []) ?ms
             = JArray (map json_of_transaction (transactions w))"
    by (simp add: get_or_def json_get_def)
  have b: "get_or ''balance'' (JString ''0.00'') ?ms = JString (str_of_decimal (balance w))"
    by (simp add: get_or_def json_get_def)
  have g: "get_or ''budget'' (JString ''0.00'') ?ms = JString (str_of_decimal (budget w))"
    by (simp add: get_or_def json_get_def)
  have "load_data (Some (save_data now w)) w0
          = Loaded (w0\<lparr>transactions := transactions w, balance := balance w,
                       budget := budget w\<rparr>)"
    unfolding load_data_def save_data_def
    by (simp add: t b g read_all_written decimal_of_json_written Let_def)
  then show ?thesis
    by simp
qed

subsection \<open>Months of the bar chart\<close>

lemma bump_key_set: "set (map fst (bump k f d kvs)) = insert k (set (map fst kvs))"
proof (induction kvs)
  case Nil
  show ?case
    by simp
next
  case (Cons kv kvs)
  obtain k' v where kv: "kv = (k', v)"
    by (cases kv)
  show ?case
  proof (cases "k' = k")
    case True
    with kv show ?thesis
      by simp
  next
    case False
    with kv Cons.IH show ?thesis
      by (simp add: insert_commute)
  qed
qed

lemma bump_distinct:
  "distinct (map fst kvs) \<Longrightarrow> distinct (map fst (bump k f d kvs))"
proof (induction kvs)
  case Nil
  then show ?case
    by simp
next
  case (Cons kv kvs)
  obtain k' v where kv: "kv = (k', v)"
    by (cases kv)
  show ?case
  proof (cases "k' = k")
    case True
    with Cons.prems kv show ?thesis
      by simp
  next
    case False
    with Cons kv have "distinct (map fst (bump k f d kvs))"
      by simp
    moreover from Cons.prems kv False have "k' \<notin> set (map fst (bump k f d kvs))"
      unfolding bump_key_set by simp
    ultimately show ?thesis
      using kv False by simp
  qed
qed

lemma monthly_loop_keys:
  assumes "monthly_loop month_key ts acc = Some r" and "distinct (map fst acc)"
  shows "distinct (map fst r)
         \<and> set (map fst r)
             = set (map fst acc) \<union> {k. \<exists>t\<in>set ts. month_key (date t) = Some k}"
  using assms
proof (induction ts arbitrary: acc)
  case Nil
  then show ?case
    by simp
next
  case (Cons t ts)
  from Cons.prems(1) obtain k a where k: "month_key (date t) = Some k"
    and a: "unsigned_float t = Some a"
    by (auto split: option.splits)
  let ?acc = "bump k
                (\<lambda>v. if ttype t = ''Income'' then v\<lparr>income := float_add (income v) a\<rparr>
                     else v\<lparr>expense := float_add (expense v) a\<rparr>)
                \<lparr>income = (0, 0), expense = (0, 0)\<rparr> acc"
  from Cons.prems(1) k a have r: "monthly_loop month_key ts ?acc = Some r"
    by simp
  have d: "distinct (map fst ?acc)"
    using Cons.prems(2) by (rule bump_distinct)
  have ks: "set (map fst ?acc) = insert k (set (map fst acc))"
    by (rule bump_key_set)
  from Cons.IH [OF r d] ks k show ?case
    by auto
qed


lemma sort_distinct_keys:
  fixes xs :: "string list"
  assumes "distinct xs"
  shows "sort xs = sorted_list_of_set (set xs)"
  using assms by (simp add: sorted_list_of_set_sort_remdups distinct_remdups_id)

lemma looked_up_keys:
  assumes "set ks \<subseteq> set (map fst md)"
  shows "map fst (List.map_filter (\<lambda>month. map_option (Pair month) (map_of md month)) ks) = ks"
  using assms
proof (induction ks)
  case Nil
  show ?case
    by (simp add: List.map_filter_simps)
next
  case (Cons k ks)
  from Cons.prems have "k \<in> fst ` set md"
    by simp
  then obtain v where "map_of md k = Some v"
    by (cases "map_of md k") (auto simp: map_of_eq_None_iff)
  with Cons show ?case
    by (simp add: List.map_filter_simps)
qed

lemma last_items_drop: "\<exists>j. last_items months xs = drop j xs"
proof -
  have "xs = drop 0 xs"
    by simp
  then show ?thesis
    unfolding last_items_def by (metis (full_types))
qed

lemma last_items_length:
  "0 < months \<Longrightarrow> length (last_items months xs) = min (nat months) (length xs)"
  by (auto simp: last_items_def)

text \<open>
  C6, as stated: a window of N months gives exactly N keys. A store without records
  gives no key at all for a window of six.
\<close>

theorem monthly_data_counterexample:
  "get_monthly_data month_of_timestamp 6 empty_wallet = Some []"
  by code_simp

text \<open>
  C6, amended: the keys returned are months that have records, in ascending order and
  without repetition: for a window of N >= 1 they are the last min(N, k) of the k
  months in which the store has a record. A month without records is never a key.
  (A window of 0 returns every month that has records.)
\<close>

theorem monthly_data_months:
  assumes "get_monthly_data month_key months w = Some r"
  shows "map fst r =
           last_items months
             (sorted_list_of_set {k. \<exists>t\<in>set (transactions w). month_key (date t) = Some k})
         \<and> (0 < months \<longrightarrow>
              length r =
                min (nat months)
                  (card {k. \<exists>t\<in>set (transactions w). month_key (date t) = Some k}))
         \<and> sorted (map fst r) \<and> distinct (map fst r)
         \<and> (\<forall>k\<in>set (map fst r). \<exists>t\<in>set (transactions w). month_key (date t) = Some k)"
proof -
  let ?M = "{k. \<exists>t\<in>set (transactions w). month_key (date t) = Some k}"
  from assms obtain md where
    loop: "monthly_loop month_key (transactions w) [] = Some md" and
    r: "r = List.map_filter (\<lambda>month. map_option (Pair month) (map_of md month))
              (last_items months (sort (map fst md)))"
    by (auto simp: get_monthly_data_def split: option.splits)
  from monthly_loop_keys [OF loop] have d: "distinct (map fst md)"
    and s: "set (map fst md) = ?M"
    by simp_all
  have fin: "finite ?M"
    unfolding s [symmetric] by simp
  have srt: "sort (map fst md) = sorted_list_of_set ?M"
    using sort_distinct_keys [OF d] s by simp
  let ?ks = "last_items months (sorted_list_of_set ?M)"
  obtain j where j: "?ks = drop j (sorted_list_of_set ?M)"
    using last_items_drop by blast
  have sub: "set ?ks \<subseteq> ?M"
    unfolding j using fin set_drop_subset [of j "sorted_list_of_set ?M"] by auto
  then have "set ?ks \<subseteq> set (map fst md)"
    unfolding s .
  then have keys: "map fst r = ?ks"
    unfolding r srt by (rule looked_up_keys)
  have len: "0 < months \<longrightarrow> length r = min (nat months) (card ?M)"
  proof
    assume "0 < months"
    then have "length ?ks = min (nat months) (length (sorted_list_of_set ?M))"
      by (rule last_items_length)
    moreover have "length r = length ?ks"
      using keys by (metis length_map)
    ultimately show "length r = min (nat months) (card ?M)"
      by simp
  qed
  have "sorted (sorted_list_of_set ?M)" "distinct (sorted_list_of_set ?M)"
    by simp_all
  then have so: "sorted ?ks" and di: "distinct ?ks"
    unfolding j by (simp_all add: sorted_wrt_drop)
  from keys len so di sub show ?thesis
    by auto
qed

theorem monthly_data_months_witness:
  "get_monthly_data month_of_timestamp 1
     (run [Add ''1.00'' ''income'' ''Salary'' '''' ''2024-01-05 10:00:00'',
           Add ''0.20'' ''expense'' ''Food'' '''' ''2024-03-06 10:00:00''] empty_wallet)
     = Some [(''2024-03'', \<lparr>income = (0, 0), expense = (7205759403792794, - 55)\<rparr>)]
   \<and> map fst [(''2024-03'', \<lparr>income = (0, 0), expense = (7205759403792794, - 55)\<rparr>)]
       = last_items 1
           (sorted_list_of_set
              {k. \<exists>t\<in>set (transactions
                    (run [Add ''1.00'' ''income'' ''Salary'' '''' ''2024-01-05 10:00:00'',
                          Add ''0.20'' ''expense'' ''Food'' '''' ''2024-03-06 10:00:00'']
                       empty_wallet)).
                  month_of_timestamp (date t) = Some k})"
proof -
  let ?w = "run [Add ''1.00'' ''income'' ''Salary'' '''' ''2024-01-05 10:00:00'',
                 Add ''0.20'' ''expense'' ''Food'' '''' ''2024-03-06 10:00:00''] empty_wallet"
  let ?r = "[(''2024-03'', \<lparr>income = (0, 0), expense = (7205759403792794, - 55)\<rparr>)]"
  have h: "get_monthly_data month_of_timestamp 1 ?w = Some ?r"
    by code_simp
  from monthly_data_months [OF h] h show ?thesis
    by blast
qed

subsection \<open>Records in cents\<close>

lemma cents_of_cents: "0 \<le> c \<Longrightarrow> cents_of (Decimal c (- 2)) = c"
  by (simp add: cents_of_def Decimal_def)

lemma format_2f_cents:
  assumes "0 \<le> coeff a"
  shows "format_2f (Decimal (cents_of a) (- 2)) = format_2f a"
  using assms cents_of_nonneg [of a]
  by (simp add: format_2f_def Let_def cents_of_cents) (simp add: Decimal_def)

lemma capitalize_types:
  "capitalize ''income'' = ''Income''" "capitalize ''expense'' = ''Expense''"
  by code_simp+

lemma new_transaction_in_cents:
  assumes "0 \<le> coeff a" and "trans_type = ''income'' \<or> trans_type = ''expense''"
  shows "in_cents (new_transaction a trans_type ctg descr now w)"
proof -
  let ?t = "new_transaction a trans_type ctg descr now w"
  have u: "unsigned_amount ?t = Some (Decimal (cents_of a) (- 2))"
    by (rule unsigned_amount_new_transaction [OF assms(1)])
  have f: "format_2f (Decimal (cents_of a) (- 2)) = format_2f a"
    by (rule format_2f_cents [OF assms(1)])
  have ty: "(ttype ?t = ''Income'' \<and> amount ?t = ''+$'' @ format_2f a)
      \<or> (ttype ?t = ''Expense'' \<and> amount ?t = ''-$'' @ format_2f a)"
    using assms(2) capitalize_types by (auto simp: new_transaction_def)
  show ?thesis
    unfolding in_cents_def u using ty cents_of_nonneg [of a]
    by (simp add: f) (simp add: Decimal_def)
qed

lemma in_cents_expense:
  assumes "in_cents t" and "ttype t = ''Expense''"
  shows "expense_amount t = Some (Decimal (cents t) (- 2))" and "0 \<le> cents t"
proof -
  from assms obtain d where d: "unsigned_amount t = Some d" "0 \<le> coeff d" "expo d = - 2"
    "amount t = ''-$'' @ format_2f d"
    by (auto simp: in_cents_def split: option.splits)
  have chars: "set (format_2f d) \<subseteq> insert CHR ''.'' digit_chars"
    by (rule format_2f_chars [OF d(2)])
  have n: "CHR ''$'' \<notin> set (format_2f d)" "CHR ''-'' \<notin> set (format_2f d)"
    using chars plain_not_mark(5,6) by blast+
  have "remove_char CHR ''-'' (remove_char CHR ''$'' (amount t)) = format_2f d"
    using n by (simp add: d(4) remove_char_Cons remove_char_absent)
  then have "expense_amount t = Some (Decimal (cents_of d) (- 2))"
    by (simp add: expense_amount_def Decimal_of_string_format_2f [OF d(2)])
  moreover have "cents_of d = coeff d"
    using d(2,3) by (simp add: cents_of_def)
  moreover have "cents t = coeff d"
    by (simp add: cents_def d(1))
  ultimately show "expense_amount t = Some (Decimal (cents t) (- 2))" and "0 \<le> cents t"
    using d(2) by simp_all
qed

lemma in_cents_income:
  assumes "in_cents t" and "ttype t = ''Income''"
  shows "income_amount t = Some (Decimal (cents t) (- 2))" and "0 \<le> cents t"
proof -
  from assms obtain d where d: "unsigned_amount t = Some d" "0 \<le> coeff d" "expo d = - 2"
    "amount t = ''+$'' @ format_2f d"
    by (auto simp: in_cents_def split: option.splits)
  have chars: "set (format_2f d) \<subseteq> insert CHR ''.'' digit_chars"
    by (rule format_2f_chars [OF d(2)])
  have n: "CHR ''$'' \<notin> set (format_2f d)" "CHR ''+'' \<notin> set (format_2f d)"
    using chars plain_not_mark(4,6) by blast+
  have "remove_char CHR ''+'' (remove_char CHR ''$'' (amount t)) = format_2f d"
    using n by (simp add: d(4) remove_char_Cons remove_char_absent)
  then have "income_amount t = Some (Decimal (cents_of d) (- 2))"
    by (simp add: income_amount_def Decimal_of_string_format_2f [OF d(2)])
  moreover have "cents_of d = coeff d"
    using d(2,3) by (simp add: cents_of_def)
  moreover have "cents t = coeff d"
    by (simp add: cents_def d(1))
  ultimately show "income_amount t = Some (Decimal (cents t) (- 2))" and "0 \<le> cents t"
    using d(2) by simp_all
qed

lemma read_all_map:
  assumes "\<forall>x\<in>set xs. f x = Some (g x)"
  shows "read_all (map f xs) = Some (map g xs)"
  using assms by (induction xs) simp_all


text \<open>The records of a store built by the two operations are written in cents.\<close>

lemma add_transaction_in_cents:
  assumes "list_all in_cents (transactions w)"
  shows "list_all in_cents (transactions (snd (add_transaction amount_text trans_type ctg descr now w)))"
proof (cases "Decimal_of_string amount_text")
  case None
  with assms show ?thesis
    by (simp add: add_transaction_def)
next
  case (Some a)
  show ?thesis
  proof (cases "dec_le a dec_zero")
    case True
    with Some assms show ?thesis
      by (simp add: add_transaction_def)
  next
    case False
    then have "0 \<le> coeff a"
      using positive_coeff [of a] by simp
    then have "\<And>tt w'. tt = ''income'' \<or> tt = ''expense'' \<Longrightarrow>
        in_cents (new_transaction a tt ctg descr now w')"
      by (rule new_transaction_in_cents)
    with Some False assms show ?thesis
      by (simp add: add_transaction_def append_transaction_def Let_def)
  qed
qed

lemma delete_transaction_in_cents:
  assumes "list_all in_cents (transactions w)"
  shows "list_all in_cents (transactions (snd (delete_transaction trans_id w)))"
  using assms
  by (auto simp: delete_transaction_def Let_def list_all_iff split: option.splits)

lemma run_in_cents:
  "list_all in_cents (transactions w) \<Longrightarrow> list_all in_cents (transactions (run ops w))"
proof (induction ops arbitrary: w)
  case Nil
  then show ?case
    by simp
next
  case (Cons x ops)
  have "list_all in_cents (transactions (snd (apply_operation x w)))"
    using Cons.prems
    by (cases x) (simp_all add: add_transaction_in_cents delete_transaction_in_cents)
  then show ?case
    using Cons.IH by simp
qed

text \<open>Sums of amounts in cents are exact while they have at most 28 digits.\<close>

lemma Decimal_sel: "coeff (Decimal c e) = c" "expo (Decimal c e) = e"
  by (simp_all add: Decimal_def)

lemma ndigits_bound: "n < 10 ^ Suc k \<Longrightarrow> ndigits n \<le> Suc k"
proof (induction k arbitrary: n)
  case 0
  then show ?case
    by (subst ndigits.simps) simp
next
  case (Suc k)
  show ?case
  proof (cases "n < 10")
    case True
    then show ?thesis
      by (subst ndigits.simps) simp
  next
    case False
    from Suc.prems have "n div 10 < 10 ^ Suc k"
      by simp
    then have "ndigits (n div 10) \<le> Suc k"
      by (rule Suc.IH)
    with False show ?thesis
      by (subst ndigits.simps) simp
  qed
qed

lemma dec_fix_small:
  assumes "\<bar>c\<bar> < 10 ^ 28"
  shows "dec_fix (Decimal c e) = Decimal c e"
proof -
  have "ndigits \<bar>c\<bar> \<le> Suc 27"
    by (rule ndigits_bound) (use assms in simp)
  then show ?thesis
    by (simp add: dec_fix_def Decimal_def prec_def)
qed

lemma dec_add_cents:
  assumes "expo a = 0 \<and> coeff a = 0 \<or> expo a = - 2" and "\<bar>coeff a + c\<bar> < 10 ^ 28"
  shows "dec_add a (Decimal c (- 2)) = Decimal (coeff a + c) (- 2)"
proof -
  from assms(1) have m: "min (expo a) (expo (Decimal c (- 2))) = - 2"
    by (auto simp: Decimal_def)
  from assms(1) have al: "align a (- 2) = coeff a"
    by (auto simp: align_def)
  have "align (Decimal c (- 2)) (- 2) = c"
    by (simp add: align_def Decimal_def)
  then show ?thesis
    unfolding dec_add_def Let_def m al using assms(2) by (simp add: dec_fix_small)
qed

lemma foldl_dec_add_cents:
  assumes "expo a = 0 \<and> coeff a = 0 \<or> expo a = - 2" and "0 \<le> coeff a"
    and "\<forall>c\<in>set cs. 0 \<le> c" and "coeff a + sum_list cs < 10 ^ 28"
  shows "foldl dec_add a (map (\<lambda>c. Decimal c (- 2)) cs)
           = (if cs = [] then a else Decimal (coeff a + sum_list cs) (- 2))"
  using assms
proof (induction cs arbitrary: a)
  case Nil
  show ?case
    by simp
next
  case (Cons c cs)
  have nn: "0 \<le> sum_list cs"
    using Cons.prems(3) by (simp add: sum_list_nonneg)
  have c: "0 \<le> c"
    using Cons.prems(3) by simp
  have small: "\<bar>coeff a + c\<bar> < 10 ^ 28"
    using Cons.prems(2,4) nn c by simp
  have step: "dec_add a (Decimal c (- 2)) = Decimal (coeff a + c) (- 2)"
    by (rule dec_add_cents [OF Cons.prems(1) small])
  have "foldl dec_add (Decimal (coeff a + c) (- 2)) (map (\<lambda>c. Decimal c (- 2)) cs)
          = (if cs = [] then Decimal (coeff a + c) (- 2)
             else Decimal (coeff (Decimal (coeff a + c) (- 2)) + sum_list cs) (- 2))"
    by (rule Cons.IH) (use Cons.prems c in \<open>simp_all add: Decimal_sel\<close>)
  then show ?case
    by (simp add: step Decimal_sel add.assoc)
qed

lemma sum_decimals_cents:
  assumes "\<forall>c\<in>set cs. 0 \<le> c" and "sum_list cs < 10 ^ 28"
  shows "sum_decimals (map (\<lambda>c. Decimal c (- 2)) cs)
           = (if cs = [] then Decimal 0 0 else Decimal (sum_list cs) (- 2))"
  unfolding sum_decimals_def
  by (subst foldl_dec_add_cents) (use assms in \<open>simp_all add: Decimal_def\<close>)


lemma in_cents_nonneg: "in_cents t \<Longrightarrow> 0 \<le> cents t"
  by (auto simp: in_cents_def cents_def split: option.splits)

lemma sum_list_filter_le:
  fixes f :: "'a \<Rightarrow> int"
  assumes "\<forall>x\<in>set xs. 0 \<le> f x"
  shows "sum_list (map f (filter P xs)) \<le> sum_list (map f xs)"
  using assms by (induction xs) auto

lemma dec_eq_zero_cents: "dec_eq (Decimal 0 0) (Decimal 0 (- 2))"
  by (simp add: dec_eq_def align_def Decimal_sel)

lemma dec_eq_same: "dec_eq d d"
  by (simp add: dec_eq_def)

lemma dec_sub_cents:
  assumes "x = Decimal 0 0 \<and> i = 0 \<or> x = Decimal i (- 2)"
    and "y = Decimal 0 0 \<and> e = 0 \<or> y = Decimal e (- 2)"
    and "\<bar>i - e\<bar> < 10 ^ 28"
  shows "dec_eq (dec_sub x y) (Decimal (i - e) (- 2))"
proof -
  consider (zz) "x = Decimal 0 0" "i = 0" "y = Decimal 0 0" "e = 0"
    | (zc) "x = Decimal 0 0" "i = 0" "y = Decimal e (- 2)"
    | (cz) "x = Decimal i (- 2)" "y = Decimal 0 0" "e = 0"
    | (cc) "x = Decimal i (- 2)" "y = Decimal e (- 2)"
    using assms(1,2) by blast
  then show ?thesis
  proof cases
    case zz
    then show ?thesis
      by (simp add: dec_sub_def dec_neg_def dec_add_def Let_def align_def Decimal_sel
          dec_fix_small dec_eq_zero_cents)
  next
    case zc
    with assms(3) have "dec_sub x y = Decimal (- e) (- 2)"
      by (simp add: dec_sub_def dec_neg_def dec_add_def Let_def align_def Decimal_sel
          dec_fix_small)
    with zc show ?thesis
      by (simp add: dec_eq_same)
  next
    case cz
    with assms(3) have "dec_sub x y = Decimal i (- 2)"
      by (simp add: dec_sub_def dec_neg_def dec_add_def Let_def align_def Decimal_sel
          dec_fix_small)
    with cz show ?thesis
      by (simp add: dec_eq_same)
  next
    case cc
    with assms(3) have "dec_sub x y = Decimal (i - e) (- 2)"
      by (simp add: dec_sub_def dec_neg_def dec_add_def Let_def align_def Decimal_sel
          dec_fix_small)
    then show ?thesis
      by (simp add: dec_eq_same)
  qed
qed

subsection \<open>Sums\<close>

text \<open>
  C8, as stated: every aggregation sum is computed in exact decimal arithmetic, never
  in binary floating point. The expenses by category are added as floats: with
  expenses of 0.10 and 0.20 in one category the sum is the double
  0.3000000000000000444 (5404319552844596 / 2^54), not the double nearest to 0.30
  (5404319552844595 / 2^54), while the Decimal total of the statistics is 0.30.
\<close>

theorem category_sum_float_counterexample:
  "get_expense_by_category
     (run [Add ''1.00'' ''income'' ''Salary'' '''' ''2024-01-05 10:00:00'',
           Add ''0.10'' ''expense'' ''Food'' '''' ''2024-01-06 10:00:00'',
           Add ''0.20'' ''expense'' ''Food'' '''' ''2024-01-07 10:00:00''] empty_wallet)
     = Some [(''Food'', (5404319552844596, - 54))]
   \<and> float_of_string ''0.30'' = Some (5404319552844595, - 54)
   \<and> map_option total_expenses (get_statistics
       (run [Add ''1.00'' ''income'' ''Salary'' '''' ''2024-01-05 10:00:00'',
             Add ''0.10'' ''expense'' ''Food'' '''' ''2024-01-06 10:00:00'',
             Add ''0.20'' ''expense'' ''Food'' '''' ''2024-01-07 10:00:00''] empty_wallet))
     = Some (Decimal 30 (- 2))"
  by code_simp

text \<open>
  C8, amended: the sums of the statistics (total income, total expenses, net savings)
  are computed with Decimal and are exact: in a store whose records are written in
  cents and whose amounts total less than 10^28 cents, they equal the sums of the
  amounts of the records. The sums by category and by month, which feed the charts, are
  computed in binary floating point (\<open>get_expense_by_category\<close>, \<open>get_monthly_data\<close>).
\<close>

theorem statistics_sums_exact:
  assumes "list_all in_cents (transactions w)"
    and "(\<Sum>t\<leftarrow>transactions w. cents t) < 10 ^ 28"
  shows "\<exists>st. get_statistics w = Some st
     \<and> dec_eq (total_income st)
         (Decimal (\<Sum>t\<leftarrow>filter (\<lambda>t. ttype t = ''Income'') (transactions w). cents t) (- 2))
     \<and> dec_eq (total_expenses st)
         (Decimal (\<Sum>t\<leftarrow>filter (\<lambda>t. ttype t = ''Expense'') (transactions w). cents t) (- 2))
     \<and> dec_eq (net_savings st)
         (Decimal ((\<Sum>t\<leftarrow>filter (\<lambda>t. ttype t = ''Income'') (transactions w). cents t)
                 - (\<Sum>t\<leftarrow>filter (\<lambda>t. ttype t = ''Expense'') (transactions w). cents t)) (- 2))"
proof -
  let ?inc = "filter (\<lambda>t. ttype t = ''Income'') (transactions w)"
  let ?exp = "filter (\<lambda>t. ttype t = ''Expense'') (transactions w)"
  let ?i = "sum_list (map cents ?inc)"
  let ?e = "sum_list (map cents ?exp)"
  have nn: "\<forall>t\<in>set (transactions w). 0 \<le> cents t"
    using assms(1) by (auto simp: list_all_iff in_cents_nonneg)
  have i0: "0 \<le> ?i" and e0: "0 \<le> ?e"
    using nn by (auto intro!: sum_list_nonneg)
  have i1: "?i < 10 ^ 28" and e1: "?e < 10 ^ 28"
    using sum_list_filter_le [OF nn] assms(2) by (force intro: le_less_trans)+
  have ri: "read_all (map income_amount ?inc) = Some (map (\<lambda>t. Decimal (cents t) (- 2)) ?inc)"
    by (rule read_all_map) (use assms(1) in \<open>auto simp: list_all_iff in_cents_income\<close>)
  have re: "read_all (map expense_amount ?exp) = Some (map (\<lambda>t. Decimal (cents t) (- 2)) ?exp)"
    by (rule read_all_map) (use assms(1) in \<open>auto simp: list_all_iff in_cents_expense\<close>)
  have mi: "map (\<lambda>t. Decimal (cents t) (- 2)) ?inc = map (\<lambda>c. Decimal c (- 2)) (map cents ?inc)"
    and me: "map (\<lambda>t. Decimal (cents t) (- 2)) ?exp = map (\<lambda>c. Decimal c (- 2)) (map cents ?exp)"
    by simp_all
  have si: "sum_decimals (map (\<lambda>t. Decimal (cents t) (- 2)) ?inc)
              = (if map cents ?inc = [] then Decimal 0 0 else Decimal ?i (- 2))"
    unfolding mi by (rule sum_decimals_cents) (use nn i1 in auto)
  have se: "sum_decimals (map (\<lambda>t. Decimal (cents t) (- 2)) ?exp)
              = (if map cents ?exp = [] then Decimal 0 0 else Decimal ?e (- 2))"
    unfolding me by (rule sum_decimals_cents) (use nn e1 in auto)
  let ?ti = "sum_decimals (map (\<lambda>t. Decimal (cents t) (- 2)) ?inc)"
  let ?te = "sum_decimals (map (\<lambda>t. Decimal (cents t) (- 2)) ?exp)"
  have xi: "?ti = Decimal 0 0 \<and> ?i = 0 \<or> ?ti = Decimal ?i (- 2)"
    unfolding si by (cases "map cents ?inc = []") simp_all
  have xe: "?te = Decimal 0 0 \<and> ?e = 0 \<or> ?te = Decimal ?e (- 2)"
    unfolding se by (cases "map cents ?exp = []") simp_all
  have di: "dec_eq ?ti (Decimal ?i (- 2))"
    using xi by (auto simp: dec_eq_zero_cents dec_eq_same)
  have de: "dec_eq ?te (Decimal ?e (- 2))"
    using xe by (auto simp: dec_eq_zero_cents dec_eq_same)
  have "\<bar>?i - ?e\<bar> < 10 ^ 28"
    using i0 i1 e0 e1 by linarith
  then have dn: "dec_eq (dec_sub ?ti ?te) (Decimal (?i - ?e) (- 2))"
    by (rule dec_sub_cents [OF xi xe])
  have "\<exists>st. get_statistics w = Some st \<and> total_income st = ?ti \<and> total_expenses st = ?te
      \<and> net_savings st = dec_sub ?ti ?te"
    by (simp add: get_statistics_def Let_def ri re)
  with di de dn show ?thesis
    by auto
qed


theorem statistics_sums_exact_witness:
  "list_all in_cents (transactions
     (run [Add ''1.00'' ''income'' ''Salary'' '''' ''2024-01-05 10:00:00'',
           Add ''0.10'' ''expense'' ''Food'' '''' ''2024-01-06 10:00:00'',
           Add ''0.20'' ''expense'' ''Food'' '''' ''2024-01-07 10:00:00''] empty_wallet))
   \<and> (\<exists>st. get_statistics
          (run [Add ''1.00'' ''income'' ''Salary'' '''' ''2024-01-05 10:00:00'',
                Add ''0.10'' ''expense'' ''Food'' '''' ''2024-01-06 10:00:00'',
                Add ''0.20'' ''expense'' ''Food'' '''' ''2024-01-07 10:00:00''] empty_wallet)
          = Some st
        \<and> dec_eq (total_income st) (Decimal 100 (- 2))
        \<and> dec_eq (total_expenses st) (Decimal 30 (- 2))
        \<and> dec_eq (net_savings st) (Decimal 70 (- 2)))"
proof -
  let ?w = "run [Add ''1.00'' ''income'' ''Salary'' '''' ''2024-01-05 10:00:00'',
                 Add ''0.10'' ''expense'' ''Food'' '''' ''2024-01-06 10:00:00'',
                 Add ''0.20'' ''expense'' ''Food'' '''' ''2024-01-07 10:00:00''] empty_wallet"
  have h: "list_all in_cents (transactions ?w)"
    by code_simp
  have b: "(\<Sum>t\<leftarrow>transactions ?w. cents t) < 10 ^ 28"
    by code_simp
  have i: "(\<Sum>t\<leftarrow>filter (\<lambda>t. ttype t = ''Income'') (transactions ?w). cents t) = 100"
    by code_simp
  have e: "(\<Sum>t\<leftarrow>filter (\<lambda>t. ttype t = ''Expense'') (transactions ?w). cents t) = 30"
    by code_simp
  from statistics_sums_exact [OF h b] h show ?thesis
    unfolding i e by simp
qed

subsection \<open>Budget status\<close>




section \<open>Properties of the task panel\<close>

text \<open>
  C4. A save should write every record of the store, whatever the view shows. In the
  panel it writes the rows of the tree: a task is added in category Home, the
  category filter is set to Home, and a task is added in category Gym. The store
  then holds both tasks and the file holds the first one only.
\<close>

theorem save_tasks_only_shown_rows:
  "map task (items
     (add_task ''Lift weights'' ''Gym'' ''High'' ''2024-01-05 10:01''
       (select_category_filter ''Home''
         (add_task ''Wash dishes'' ''Home'' ''Medium'' ''2024-01-05 10:00'' empty_panel))))
     = [''Wash dishes'', ''Lift weights'']
   \<and> map_option (map saved_text) (tasks_file
     (add_task ''Lift weights'' ''Gym'' ''High'' ''2024-01-05 10:01''
       (select_category_filter ''Home''
         (add_task ''Wash dishes'' ''Home'' ''Medium'' ''2024-01-05 10:00'' empty_panel))))
     = Some [''Wash dishes'']"
  by code_simp

end
